theory Spec2Isabelle
  imports Main
begin

section \<open>Company deduplication for HubSpot workflows: a model of company_dedup.js\<close>

text \<open>
  The script is one exported function, \<open>main\<close>, and three helpers (\<open>markAsPrimary\<close>,
  \<open>markAsMerged\<close>, \<open>mergeCompanies\<close>). It talks to the CRM through four remote operations and
  answers the workflow through a callback. The model threads an explicit world through
  the promise chain: the state of the remote store, the trace of remote calls with the
  failure each one produced (if any), the lines written with \<open>console.error\<close>, and the
  payloads handed to the callback. \<open>console.log\<close> lines change nothing and are left out.
\<close>

subsection \<open>Record identifiers and their numeric coercion\<close>

text \<open>
  An identifier is a JavaScript value: the workflow event carries a number, the search API
  returns strings. \<open>IdNum n\<close> is the number \<open>n\<close>, \<open>IdStr s\<close> the string \<open>s\<close>. Strict
  equality \<open>===\<close> and the membership test of \<open>Set\<close> are equality of this datatype.
\<close>

datatype js_id = IdNum nat | IdStr string

definition is_digit :: "char \<Rightarrow> bool" where
  "is_digit c = (48 \<le> (of_char c :: nat) \<and> (of_char c :: nat) \<le> 57)"

definition dec_value :: "string \<Rightarrow> nat" where
  "dec_value s = foldl (\<lambda>acc c. 10 * acc + ((of_char c :: nat) - 48)) 0 s"

text \<open>
  \<open>Number(id)\<close>. \<open>None\<close> is NaN. A string of decimal digits is read as its value. Every
  other string is NaN in the model; JavaScript reads some of them as numbers (signs, blanks,
  fractions, exponents, hexadecimal, the empty string), and values from \<open>2^53\<close> on are rounded.
  The predicate \<open>numeric_id\<close> holds of the identifiers on which model and language agree.
\<close>

fun Number :: "js_id \<Rightarrow> nat option" where
  "Number (IdNum n) = Some n"
| "Number (IdStr s) = (if s \<noteq> [] \<and> list_all is_digit s then Some (dec_value s) else None)"

definition numeric_id :: "js_id \<Rightarrow> bool" where
  "numeric_id i = (case Number i of None \<Rightarrow> False | Some n \<Rightarrow> n < 2 ^ 53)"

text \<open>\<open>Number(a) !== Number(b)\<close>: NaN differs from everything, itself included.\<close>

definition num_neq :: "nat option \<Rightarrow> nat option \<Rightarrow> bool" where
  "num_neq a b = (case (a, b) of (Some x, Some y) \<Rightarrow> x \<noteq> y | _ \<Rightarrow> True)"

text \<open>The comparator \<open>(a, b) => Number(a) - Number(b)\<close>; NaN when either side is NaN.\<close>

definition compare_ids :: "js_id \<Rightarrow> js_id \<Rightarrow> int option" where
  "compare_ids a b =
     (case (Number a, Number b) of
        (Some x, Some y) \<Rightarrow> Some (int x - int y)
      | _ \<Rightarrow> None)"

text \<open>
  \<open>Array.prototype.sort\<close> with a comparator: stable, and a NaN from the comparator counts
  as \<open>+0\<close>. With a consistent comparator every stable sort gives the same array; the model is
  an insertion sort. (With NaN among the keys the language leaves the order to the engine.)
\<close>

fun insert_by :: "('a \<Rightarrow> 'a \<Rightarrow> int option) \<Rightarrow> 'a \<Rightarrow> 'a list \<Rightarrow> 'a list" where
  "insert_by cmp x [] = [x]"
| "insert_by cmp x (y # ys) =
     (if (case cmp x y of None \<Rightarrow> True | Some d \<Rightarrow> d \<le> 0) then x # y # ys
      else y # insert_by cmp x ys)"

definition js_sort :: "('a \<Rightarrow> 'a \<Rightarrow> int option) \<Rightarrow> 'a list \<Rightarrow> 'a list" where
  "js_sort cmp xs = foldr (insert_by cmp) xs []"

text \<open>\<open>[...new Set(xs)]\<close>: the first occurrence of every value, in insertion order.\<close>

fun set_add_all :: "'a list \<Rightarrow> 'a list \<Rightarrow> 'a list" where
  "set_add_all acc [] = acc"
| "set_add_all acc (x # xs) =
     (if x \<in> set acc then set_add_all acc xs else set_add_all (acc @ [x]) xs)"

definition js_unique :: "'a list \<Rightarrow> 'a list" where
  "js_unique xs = set_add_all [] xs"

subsection \<open>Configuration constants\<close>

definition DEDUPE_PROPERTY :: string where
  "DEDUPE_PROPERTY = ''name''"

definition SECONDARY_PROPERTIES :: "string list" where
  "SECONDARY_PROPERTIES = [''domain'', ''linkedin_company_page'', ''sales_navigator_url'']"

definition LOGGING_PROPERTIES :: "string list" where
  "LOGGING_PROPERTIES = [''country'', ''city'', ''phone'', ''address'']"

definition DEDUPLICATION_STATUS_PROPERTY :: string where
  "DEDUPLICATION_STATUS_PROPERTY = ''deduplication_status''"

definition ALL_PROPERTIES :: "string list" where
  "ALL_PROPERTIES =
     [DEDUPE_PROPERTY] @ SECONDARY_PROPERTIES @ LOGGING_PROPERTIES @ [DEDUPLICATION_STATUS_PROPERTY]"

subsection \<open>Data exchanged with the remote store\<close>

text \<open>
  \<open>companyResult.properties\<close>: a property is a string, or missing (\<open>undefined\<close> or \<open>null\<close>,
  both \<open>None\<close>). A value is truthy when it is a non-empty string.
\<close>

type_synonym properties = "string \<Rightarrow> string option"

definition truthy :: "string option \<Rightarrow> bool" where
  "truthy v = (case v of None \<Rightarrow> False | Some s \<Rightarrow> s \<noteq> [])"

record js_filter =
  propertyName :: string
  operator :: string
  val :: string

record filter_group =
  filters :: "js_filter list"

record search_request =
  filterGroups :: "filter_group list"
  limit :: nat
  sorts :: "string list"

text \<open>An element of \<open>searchResults.results\<close>; the script reads its \<open>id\<close> only.\<close>

record search_hit =
  obj_id :: js_id

text \<open>
  The remote calls the script can make. \<open>Update i ps\<close> is \<open>basicApi.update(i, {properties: ps})\<close>,
  \<open>MergeReq p m\<close> the POST to the merge endpoint with \<open>primaryObjectId = p\<close> and
  \<open>objectIdToMerge = m\<close>.
\<close>

datatype call =
    GetById js_id "string list"
  | DoSearch search_request
  | Update js_id "(string \<times> string) list"
  | MergeReq js_id js_id

text \<open>
  The remote store: each operation takes the store's state and returns the settled promise
  (\<open>Inl\<close> the message of the error it rejects with, \<open>Inr\<close> the value it resolves to) and the
  next state. The script ignores what an update or a merge resolves to.
\<close>

record 's remote =
  getById :: "'s \<Rightarrow> js_id \<Rightarrow> string list \<Rightarrow> (string + properties) \<times> 's"
  doSearch :: "'s \<Rightarrow> search_request \<Rightarrow> (string + search_hit list) \<times> 's"
  update :: "'s \<Rightarrow> js_id \<Rightarrow> (string \<times> string) list \<Rightarrow> (string + unit) \<times> 's"
  apiRequest :: "'s \<Rightarrow> js_id \<Rightarrow> js_id \<Rightarrow> (string + unit) \<times> 's"

text \<open>A value of an output field, and the \<open>outputFields\<close> object handed to the callback.\<close>

datatype js_val = VStr string | VId js_id | VNum int

type_synonym output_fields = "(string \<times> js_val) list"

text \<open>
  The world of one invocation: the store's state, the remote calls issued so far, each with
  the message of its failure if it failed, the lines written with \<open>console.error\<close>, and
  the payloads the callback was invoked with.
\<close>

record 's world =
  remote_state :: 's
  trace :: "(call \<times> string option) list"
  console_error :: "string list"
  callbacks :: "output_fields list"

text \<open>The workflow event; the script reads \<open>event.object.objectId\<close> and nothing else.\<close>

record event =
  objectId :: js_id

subsection \<open>Effects\<close>

text \<open>Issue a remote call: record it with its failure, keep the store's next state.\<close>

definition perform :: "call \<Rightarrow> (string + 'a) \<times> 's \<Rightarrow> 's world \<Rightarrow> (string + 'a) \<times> 's world" where
  "perform c rs w =
     (case rs of (r, s') \<Rightarrow>
        (r, w\<lparr>remote_state := s',
              trace := trace w @ [(c, case r of Inl e \<Rightarrow> Some e | Inr _ \<Rightarrow> None)]\<rparr>))"

definition callback :: "output_fields \<Rightarrow> 's world \<Rightarrow> 's world" where
  "callback out w = w\<lparr>callbacks := callbacks w @ [out]\<rparr>"

text \<open>
  A handler \<open>.catch(error => { console.error(prefix + error.message); throw error; })\<close> at
  the end of a chain nobody awaits: the message is logged and the promise stays rejected.
  The first component of the result is the error the invocation ends rejected with.
\<close>

definition log_and_rethrow :: "string \<Rightarrow> string \<Rightarrow> 's world \<Rightarrow> string option \<times> 's world" where
  "log_and_rethrow prefix e w = (Some e, w\<lparr>console_error := console_error w @ [prefix @ e]\<rparr>)"

text \<open>A promise that is neither returned nor caught: a rejection stays unhandled and unlogged.\<close>

definition floating :: "(string + 'a) \<times> 's world \<Rightarrow> string option \<times> 's world" where
  "floating rw = (case rw of (Inl e, w) \<Rightarrow> (Some e, w) | (Inr _, w) \<Rightarrow> (None, w))"

subsection \<open>The helpers\<close>

definition markAsPrimary ::
  "'s remote \<Rightarrow> 's world \<Rightarrow> js_id \<Rightarrow> bool \<Rightarrow> (string + unit) \<times> 's world" where
  "markAsPrimary hubspotClient w companyId with_callback =
     (let ps = [(DEDUPLICATION_STATUS_PROPERTY, ''primary'')] in
      case perform (Update companyId ps) (update hubspotClient (remote_state w) companyId ps) w of
        (Inl e, w') \<Rightarrow> (Inl e, w')
      | (Inr response, w') \<Rightarrow>
          (Inr response,
           if with_callback
           then callback [(''result'', VStr ''Marked as primary''),
                          (''primaryCompanyId'', VId companyId)] w'
           else w'))"

definition markAsMerged :: "'s remote \<Rightarrow> 's world \<Rightarrow> js_id \<Rightarrow> (string + unit) \<times> 's world" where
  "markAsMerged hubspotClient w companyId =
     (let ps = [(DEDUPLICATION_STATUS_PROPERTY, ''merged'')] in
      perform (Update companyId ps) (update hubspotClient (remote_state w) companyId ps) w)"

definition mergeCompanies ::
  "'s remote \<Rightarrow> 's world \<Rightarrow> js_id \<Rightarrow> js_id \<Rightarrow> (string + unit) \<times> 's world" where
  "mergeCompanies hubspotClient w primaryId mergeId =
     perform (MergeReq primaryId mergeId)
       (apiRequest hubspotClient (remote_state w) primaryId mergeId) w"

subsection \<open>Step 3: the search criteria\<close>

definition nameFilter :: "string \<Rightarrow> js_filter" where
  "nameFilter dedupePropValue =
     \<lparr>propertyName = DEDUPE_PROPERTY, operator = ''EQ'', val = dedupePropValue\<rparr>"

text \<open>The loop over \<open>SECONDARY_PROPERTIES\<close> that pushes a filter for every truthy value.\<close>

fun secondaryFilters_loop :: "properties \<Rightarrow> string list \<Rightarrow> js_filter list \<Rightarrow> js_filter list" where
  "secondaryFilters_loop props [] acc = acc"
| "secondaryFilters_loop props (prop # rest) acc =
     (case props prop of
        Some propValue \<Rightarrow>
          if propValue \<noteq> []
          then secondaryFilters_loop props rest
                 (acc @ [\<lparr>propertyName = prop, operator = ''EQ'', val = propValue\<rparr>])
          else secondaryFilters_loop props rest acc
      | None \<Rightarrow> secondaryFilters_loop props rest acc)"

definition build_filterGroups :: "properties \<Rightarrow> filter_group list" where
  "build_filterGroups props =
     (case props DEDUPE_PROPERTY of
        None \<Rightarrow> []
      | Some dedupePropValue \<Rightarrow>
          if dedupePropValue = [] then []
          else
            let secondaryFilters = secondaryFilters_loop props SECONDARY_PROPERTIES [] in
            if length secondaryFilters > 0
            then map (\<lambda>secondaryFilter.
                        \<lparr>filters = [nameFilter dedupePropValue, secondaryFilter]\<rparr>) secondaryFilters
            else [\<lparr>filters = [nameFilter dedupePropValue]\<rparr>])"

subsection \<open>Steps 4 to 7: candidates, canonical record, merge direction\<close>

definition matchingIds :: "js_id \<Rightarrow> search_hit list \<Rightarrow> js_id list" where
  "matchingIds cur results =
     filter (\<lambda>i. num_neq (Number i) (Number cur)) (map obj_id results)"

definition uniqueIds :: "js_id \<Rightarrow> search_hit list \<Rightarrow> js_id list" where
  "uniqueIds cur results = js_unique (matchingIds cur results)"

definition allCompanyIds :: "js_id \<Rightarrow> search_hit list \<Rightarrow> js_id list" where
  "allCompanyIds cur results = js_sort compare_ids (uniqueIds cur results @ [cur])"

definition primaryId :: "js_id \<Rightarrow> search_hit list \<Rightarrow> js_id" where
  "primaryId cur results = hd (allCompanyIds cur results)"

definition duplicateToMerge :: "js_id \<Rightarrow> search_hit list \<Rightarrow> js_id" where
  "duplicateToMerge cur results = hd (uniqueIds cur results)"

text \<open>The chain of the branch in which the current company is the primary one.\<close>

definition merge_into_current ::
  "'s remote \<Rightarrow> 's world \<Rightarrow> js_id \<Rightarrow> search_hit list \<Rightarrow> string option \<times> 's world" where
  "merge_into_current hubspotClient w cur results =
     (let d = duplicateToMerge cur results in
      case markAsMerged hubspotClient w d of
        (Inl e, w1) \<Rightarrow> log_and_rethrow ''Error during merge process: '' e w1
      | (Inr _, w1) \<Rightarrow>
          (case mergeCompanies hubspotClient w1 cur d of
             (Inl e, w2) \<Rightarrow> log_and_rethrow ''Error during merge process: '' e w2
           | (Inr _, w2) \<Rightarrow>
               (case markAsPrimary hubspotClient w2 cur False of
                  (Inl e, w3) \<Rightarrow> log_and_rethrow ''Error during merge process: '' e w3
                | (Inr _, w3) \<Rightarrow>
                    (None,
                     callback
                       [(''result'', VStr ''Successfully merged duplicate into this company''),
                        (''primaryCompanyId'', VId cur),
                        (''mergedCompanyId'', VId d),
                        (''remainingDuplicates'', VNum (int (length (uniqueIds cur results)) - 1))]
                       w3))))"

text \<open>The chain of the branch in which the current company is merged into the primary one.\<close>

definition merge_into_primary ::
  "'s remote \<Rightarrow> 's world \<Rightarrow> js_id \<Rightarrow> js_id \<Rightarrow> string option \<times> 's world" where
  "merge_into_primary hubspotClient w cur p =
     (case markAsMerged hubspotClient w cur of
        (Inl e, w1) \<Rightarrow> log_and_rethrow ''Error during merge process: '' e w1
      | (Inr _, w1) \<Rightarrow>
          (case mergeCompanies hubspotClient w1 p cur of
             (Inl e, w2) \<Rightarrow> log_and_rethrow ''Error during merge process: '' e w2
           | (Inr _, w2) \<Rightarrow>
               (case markAsPrimary hubspotClient w2 p False of
                  (Inl e, w3) \<Rightarrow> log_and_rethrow ''Error during merge process: '' e w3
                | (Inr _, w3) \<Rightarrow>
                    (None,
                     callback
                       [(''result'', VStr ''Successfully merged into primary company''),
                        (''primaryCompanyId'', VId p),
                        (''mergedCompanyId'', VId cur)]
                       w3))))"

text \<open>The handler of the search promise (steps 5 to 7).\<close>

definition after_search ::
  "'s remote \<Rightarrow> 's world \<Rightarrow> js_id \<Rightarrow> search_hit list \<Rightarrow> string option \<times> 's world" where
  "after_search hubspotClient w cur results =
     (if length (uniqueIds cur results) = 0
      then floating (markAsPrimary hubspotClient w cur True)
      else if primaryId cur results = cur
      then (if length (uniqueIds cur results) > 0
            then merge_into_current hubspotClient w cur results
            else floating (markAsPrimary hubspotClient w cur True))
      else merge_into_primary hubspotClient w cur (primaryId cur results))"

definition search_request_of :: "filter_group list \<Rightarrow> search_request" where
  "search_request_of groups = \<lparr>filterGroups = groups, limit = 100, sorts = [''id'']\<rparr>"

text \<open>The handler of the fetch promise (steps 2 to 4).\<close>

definition after_fetch ::
  "'s remote \<Rightarrow> 's world \<Rightarrow> js_id \<Rightarrow> properties \<Rightarrow> string option \<times> 's world" where
  "after_fetch hubspotClient w cur props =
     (if props DEDUPLICATION_STATUS_PROPERTY = Some ''merged''
      then (None, callback [(''result'', VStr ''Already merged into another company''),
                            (''companyId'', VId cur)] w)
      else
        let groups = build_filterGroups props in
        if length groups = 0
        then floating (markAsPrimary hubspotClient w cur True)
        else
          let req = search_request_of groups in
          case perform (DoSearch req) (doSearch hubspotClient (remote_state w) req) w of
            (Inl e, w') \<Rightarrow> log_and_rethrow ''Error searching for companies: '' e w'
          | (Inr results, w') \<Rightarrow> after_search hubspotClient w' cur results)"

text \<open>
  \<open>exports.main\<close>. The result is the error the invocation ends rejected with (\<open>None\<close> when
  every promise resolved) and the final world.
\<close>

definition main :: "'s remote \<Rightarrow> 's \<Rightarrow> event \<Rightarrow> string option \<times> 's world" where
  "main hubspotClient s0 ev =
     (let w0 = \<lparr>remote_state = s0, trace = [], console_error = [], callbacks = []\<rparr>;
          cur = objectId ev
      in case perform (GetById cur ALL_PROPERTIES)
                (getById hubspotClient s0 cur ALL_PROPERTIES) w0 of
           (Inl e, w1) \<Rightarrow> log_and_rethrow ''Error getting company details: '' e w1
         | (Inr props, w1) \<Rightarrow> after_fetch hubspotClient w1 cur props)"

subsection \<open>Auxiliary notions for the verification\<close>

text \<open>The number a numeric identifier coerces to (0 stands in for NaN).\<close>

definition id_value :: "js_id \<Rightarrow> nat" where
  "id_value i = (case Number i of None \<Rightarrow> 0 | Some n \<Rightarrow> n)"

text \<open>
  A remote store for running the model: the fetch and the search always settle as given,
  and the state counts the mutations requested so far; the mutation numbered \<open>fail_at\<close>
  (from 0) is rejected.
\<close>

definition scripted_remote ::
  "(string + properties) \<Rightarrow> (string + search_hit list) \<Rightarrow> nat option \<Rightarrow> nat remote" where
  "scripted_remote fetched found fail_at =
     \<lparr>getById = (\<lambda>s i ps. (fetched, s)),
      doSearch = (\<lambda>s q. (found, s)),
      update = (\<lambda>s i ps. (if Some s = fail_at then Inl ''permission denied'' else Inr (), Suc s)),
      apiRequest = (\<lambda>s p m. (if Some s = fail_at then Inl ''permission denied'' else Inr (), Suc s))\<rparr>"

definition acme :: properties where
  "acme = [''name'' \<mapsto> ''Acme'', ''domain'' \<mapsto> ''acme.com'']"

text \<open>The secondary equality filter the loop pushes for a property that has a value.\<close>

definition secondaryFilter :: "properties \<Rightarrow> string \<Rightarrow> js_filter" where
  "secondaryFilter props prop =
     \<lparr>propertyName = prop, operator = ''EQ'', val = (case props prop of None \<Rightarrow> [] | Some v \<Rightarrow> v)\<rparr>"

text \<open>The identifiers a remote call asks the store to change.\<close>

definition mutated_ids :: "call \<Rightarrow> js_id set" where
  "mutated_ids c = (case c of Update i ps \<Rightarrow> {i} | MergeReq p m \<Rightarrow> {p, m} | _ \<Rightarrow> {})"

text \<open>An update that writes the deduplication status and nothing else.\<close>

definition status_only :: "call \<Rightarrow> bool" where
  "status_only c =
     (case c of
        Update i ps \<Rightarrow> ps = [(DEDUPLICATION_STATUS_PROPERTY, ''primary'')]
                      \<or> ps = [(DEDUPLICATION_STATUS_PROPERTY, ''merged'')]
      | _ \<Rightarrow> True)"

text \<open>
  The calls \<open>new\<close> of a run that ended with \<open>e\<close>: all of them succeeded, or the last one
  failed with the message the run ended with and the ones before it succeeded.
\<close>

definition aborted_at_failure :: "string option \<Rightarrow> (call \<times> string option) list \<Rightarrow> bool" where
  "aborted_at_failure e new =
     (case e of
        None \<Rightarrow> list_all (\<lambda>x. snd x = None) new
      | Some msg \<Rightarrow> new \<noteq> [] \<and> snd (last new) = Some msg
                    \<and> list_all (\<lambda>x. snd x = None) (butlast new))"

definition error_prefixes :: "string list" where
  "error_prefixes =
     [''Error getting company details: '', ''Error searching for companies: '',
      ''Error during merge process: '']"

text \<open>
  What every handler of the script does to the world it starts in: it appends calls that
  stop at the first failure and write the status only; it either invokes the callback
  once, with a payload that has no \<open>error\<close> field, or ends rejected without invoking it,
  having logged at most one line that ends with the message.
\<close>

definition faithful_run :: "'s world \<Rightarrow> string option \<times> 's world \<Rightarrow> bool" where
  "faithful_run w res =
     (case res of (e, w') \<Rightarrow>
        \<exists>new. trace w' = trace w @ new \<and> aborted_at_failure e new
          \<and> list_all (\<lambda>x. status_only (fst x)) new
          \<and> (case e of
                None \<Rightarrow> (\<exists>out. callbacks w' = callbacks w @ [out] \<and> map_of out ''error'' = None)
                         \<and> console_error w' = console_error w
              | Some msg \<Rightarrow> callbacks w' = callbacks w
                  \<and> (console_error w' = console_error w
                     \<or> (\<exists>prefix\<in>set error_prefixes.
                           console_error w' = console_error w @ [prefix @ msg]))))"

text \<open>Fetched properties used to run the model.\<close>

definition merged_acme :: properties where
  "merged_acme = acme(''deduplication_status'' \<mapsto> ''merged'')"

definition nameless :: properties where
  "nameless = [''domain'' \<mapsto> ''acme.com'']"

definition merged_nameless :: properties where
  "merged_nameless = [''deduplication_status'' \<mapsto> ''merged'']"

section \<open>Lists, sets and sorting\<close>

lemma set_set_add_all: "set (set_add_all acc xs) = set acc \<union> set xs"
  by (induction xs arbitrary: acc) auto

lemma distinct_set_add_all: "distinct acc \<Longrightarrow> distinct (set_add_all acc xs)"
  by (induction xs arbitrary: acc) auto

lemma hd_set_add_all: "acc \<noteq> [] \<Longrightarrow> hd (set_add_all acc xs) = hd acc"
  by (induction xs arbitrary: acc) auto

lemma set_js_unique: "set (js_unique xs) = set xs"
  by (simp add: js_unique_def set_set_add_all)

lemma distinct_js_unique: "distinct (js_unique xs)"
  by (simp add: js_unique_def distinct_set_add_all)

lemma hd_js_unique: "hd (js_unique xs) = hd xs"
  by (cases xs) (simp_all add: js_unique_def hd_set_add_all)

lemma js_unique_Nil_iff: "js_unique xs = [] \<longleftrightarrow> xs = []"
  using set_js_unique [of xs] by (metis set_empty)

lemma numeric_id_Number: "numeric_id i \<Longrightarrow> Number i = Some (id_value i)"
  by (auto simp: numeric_id_def id_value_def split: option.splits)

lemma insert_by_numeric:
  "Number x \<noteq> None \<Longrightarrow> \<forall>y\<in>set ys. Number y \<noteq> None \<Longrightarrow>
   insert_by compare_ids x ys = insort_key id_value x ys"
  by (induction ys) (auto simp: compare_ids_def id_value_def)

lemma set_insert_by: "set (insert_by cmp x ys) = insert x (set ys)"
  by (induction ys) auto

lemma js_sort_Nil: "js_sort cmp [] = []"
  by (simp add: js_sort_def)

lemma js_sort_Cons: "js_sort cmp (x # xs) = insert_by cmp x (js_sort cmp xs)"
  by (simp add: js_sort_def)

lemma js_sort_numeric:
  "\<forall>x\<in>set xs. Number x \<noteq> None \<Longrightarrow> js_sort compare_ids xs = sort_key id_value xs"
proof (induction xs)
  case Nil
  then show ?case by (simp add: js_sort_Nil)
next
  case (Cons x xs)
  have "\<forall>y\<in>set (sort_key id_value xs). Number y \<noteq> None"
    using Cons.prems by simp
  with Cons show ?case
    by (simp add: js_sort_Cons insert_by_numeric)
qed

lemma set_js_sort: "set (js_sort cmp xs) = set xs"
  by (induction xs) (simp_all add: js_sort_Nil js_sort_Cons set_insert_by)

lemma hd_sort_key_least:
  assumes "xs \<noteq> []"
  shows "hd (sort_key f xs) \<in> set xs \<and> (\<forall>x\<in>set xs. f (hd (sort_key f xs)) \<le> f x)"
proof -
  let ?ys = "sort_key f xs"
  have ne: "?ys \<noteq> []" using assms by (metis set_empty set_sort)
  then obtain y ys where ys: "?ys = y # ys" by (cases ?ys) auto
  have "sorted (map f ?ys)" by simp
  with ys have "\<forall>z\<in>set (y # ys). f y \<le> f z" by auto
  moreover have "set (y # ys) = set xs" using ys by (metis set_sort)
  ultimately show ?thesis using ys by (metis list.sel(1) list.set_intros(1))
qed

section \<open>Candidate set and canonical selection\<close>

lemma num_neq_Some: "num_neq a (Some n) = (a \<noteq> Some n)"
  by (cases a) (simp_all add: num_neq_def)

lemma set_uniqueIds:
  "set (uniqueIds cur results) = {i \<in> obj_id ` set results. num_neq (Number i) (Number cur)}"
  by (auto simp: uniqueIds_def matchingIds_def set_js_unique)

lemma distinct_uniqueIds: "distinct (uniqueIds cur results)"
  by (simp add: uniqueIds_def distinct_js_unique)

text \<open>
  C9. For every search result list, the candidate set leaves out the current record's own
  identifier and every identifier that coerces to the same number (the string form of the
  current record's number among them), and holds every other returned identifier once.
  Identifiers are numeric: numbers or decimal strings below \<open>2^53\<close>.
\<close>

theorem candidate_set_excludes_self:
  assumes "numeric_id cur" and "\<forall>h\<in>set results. numeric_id (obj_id h)"
  shows "cur \<notin> set (uniqueIds cur results)
       \<and> (\<forall>i\<in>set (uniqueIds cur results). Number i \<noteq> Number cur)
       \<and> distinct (uniqueIds cur results)
       \<and> set (uniqueIds cur results) = {i \<in> obj_id ` set results. Number i \<noteq> Number cur}"
proof -
  from assms(1) have n: "Number cur = Some (id_value cur)"
    by (rule numeric_id_Number)
  have s: "set (uniqueIds cur results) = {i \<in> obj_id ` set results. Number i \<noteq> Number cur}"
    by (simp add: set_uniqueIds n num_neq_Some)
  then show ?thesis
    using distinct_uniqueIds [of cur results] by auto
qed

theorem candidate_set_excludes_self_witness:
  "numeric_id (IdNum 12) \<and> numeric_id (IdStr ''12'') \<and> numeric_id (IdStr ''7'')
   \<and> uniqueIds (IdNum 12)
        [\<lparr>obj_id = IdStr ''7''\<rparr>, \<lparr>obj_id = IdStr ''12''\<rparr>, \<lparr>obj_id = IdStr ''7''\<rparr>] = [IdStr ''7'']
   \<and> IdNum 12 \<notin> set (uniqueIds (IdNum 12)
        [\<lparr>obj_id = IdStr ''7''\<rparr>, \<lparr>obj_id = IdStr ''12''\<rparr>, \<lparr>obj_id = IdStr ''7''\<rparr>])
   \<and> distinct (uniqueIds (IdNum 12)
        [\<lparr>obj_id = IdStr ''7''\<rparr>, \<lparr>obj_id = IdStr ''12''\<rparr>, \<lparr>obj_id = IdStr ''7''\<rparr>])"
proof -
  have a: "numeric_id (IdNum 12)"
    by (simp add: numeric_id_def)
  have b: "\<forall>h\<in>set [\<lparr>obj_id = IdStr ''7''\<rparr>, \<lparr>obj_id = IdStr ''12''\<rparr>, \<lparr>obj_id = IdStr ''7''\<rparr>].
             numeric_id (obj_id h)"
    by (simp add: numeric_id_def is_digit_def dec_value_def)
  have c: "uniqueIds (IdNum 12)
        [\<lparr>obj_id = IdStr ''7''\<rparr>, \<lparr>obj_id = IdStr ''12''\<rparr>, \<lparr>obj_id = IdStr ''7''\<rparr>] = [IdStr ''7'']"
    by (simp add: uniqueIds_def matchingIds_def js_unique_def num_neq_def is_digit_def dec_value_def)
  show ?thesis
    using a b c candidate_set_excludes_self [OF a b] by simp
qed

lemma allCompanyIds_numeric:
  assumes "numeric_id cur" and "\<forall>h\<in>set results. numeric_id (obj_id h)"
  shows "allCompanyIds cur results = sort_key id_value (uniqueIds cur results @ [cur])"
proof -
  have "\<forall>x\<in>set (uniqueIds cur results @ [cur]). Number x \<noteq> None"
    using assms by (auto simp: set_uniqueIds dest!: numeric_id_Number)
  then show ?thesis
    unfolding allCompanyIds_def by (rule js_sort_numeric)
qed

lemma primaryId_least:
  assumes "numeric_id cur" and "\<forall>h\<in>set results. numeric_id (obj_id h)"
  shows "primaryId cur results \<in> insert cur (set (uniqueIds cur results))"
    and "\<forall>i\<in>insert cur (set (uniqueIds cur results)).
           id_value (primaryId cur results) \<le> id_value i"
  using hd_sort_key_least [of "uniqueIds cur results @ [cur]" id_value]
  by (auto simp: primaryId_def allCompanyIds_numeric [OF assms])

lemma numeric_uniqueIds:
  assumes "\<forall>h\<in>set results. numeric_id (obj_id h)"
  shows "\<forall>i\<in>set (uniqueIds cur results). numeric_id i"
  using assms by (auto simp: set_uniqueIds)

lemma set_uniqueIds_cong:
  "set results' = set results \<Longrightarrow> set (uniqueIds cur results') = set (uniqueIds cur results)"
  by (simp add: set_uniqueIds)

lemma primaryId_value_cong:
  assumes "numeric_id cur" and "\<forall>h\<in>set results. numeric_id (obj_id h)"
    and "set results' = set results"
  shows "id_value (primaryId cur results') = id_value (primaryId cur results)"
proof -
  have r': "\<forall>h\<in>set results'. numeric_id (obj_id h)"
    using assms(2,3) by simp
  have s: "set (uniqueIds cur results') = set (uniqueIds cur results)"
    using assms(3) by (rule set_uniqueIds_cong)
  have "id_value (primaryId cur results') \<le> id_value (primaryId cur results)"
    using primaryId_least(2) [OF assms(1) r'] primaryId_least(1) [OF assms(1,2)] s by blast
  moreover have "id_value (primaryId cur results) \<le> id_value (primaryId cur results')"
    using primaryId_least(2) [OF assms(1,2)] primaryId_least(1) [OF assms(1) r'] s by blast
  ultimately show ?thesis by simp
qed

text \<open>
  C3. The canonical identifier belongs to the candidate set joined with the current
  identifier, and its number is the least among them, by comparison of numbers also for
  string identifiers. The selection does not depend on the order of the search results:
  the number selected never does, and the identifier itself does not when no two results
  coerce to the same number.
\<close>

theorem canonical_is_numeric_minimum:
  assumes "numeric_id cur" and "\<forall>h\<in>set results. numeric_id (obj_id h)"
  shows "primaryId cur results \<in> insert cur (set (uniqueIds cur results))
       \<and> (\<forall>i\<in>insert cur (set (uniqueIds cur results)).
            \<exists>n m. Number (primaryId cur results) = Some n \<and> Number i = Some m \<and> n \<le> m)
       \<and> (\<forall>results'. set results' = set results \<longrightarrow>
            Number (primaryId cur results') = Number (primaryId cur results))
       \<and> (inj_on Number (obj_id ` set results) \<longrightarrow>
            (\<forall>results'. set results' = set results \<longrightarrow>
               primaryId cur results' = primaryId cur results))"
proof -
  let ?S = "insert cur (set (uniqueIds cur results))"
  have num: "\<forall>i\<in>?S. Number i = Some (id_value i)"
    using assms numeric_uniqueIds [OF assms(2), of cur] by (auto intro: numeric_id_Number)
  have mem: "primaryId cur results \<in> ?S"
    by (rule primaryId_least(1) [OF assms])
  have least: "\<forall>i\<in>?S. id_value (primaryId cur results) \<le> id_value i"
    by (rule primaryId_least(2) [OF assms])
  have c2: "\<forall>i\<in>?S. \<exists>n m. Number (primaryId cur results) = Some n \<and> Number i = Some m \<and> n \<le> m"
    using num mem least by auto
  have c3: "Number (primaryId cur results') = Number (primaryId cur results)"
    if eq: "set results' = set results" for results'
  proof -
    have r': "\<forall>h\<in>set results'. numeric_id (obj_id h)"
      using assms(2) eq by simp
    have mem': "primaryId cur results' \<in> ?S"
      using primaryId_least(1) [OF assms(1) r'] set_uniqueIds_cong [OF eq, of cur] by simp
    show ?thesis
      using num mem mem' primaryId_value_cong [OF assms eq] by auto
  qed
  have c4: "primaryId cur results' = primaryId cur results"
    if inj: "inj_on Number (obj_id ` set results)" and eq: "set results' = set results"
    for results'
  proof -
    have r': "\<forall>h\<in>set results'. numeric_id (obj_id h)"
      using assms(2) eq by simp
    have mem': "primaryId cur results' \<in> ?S"
      using primaryId_least(1) [OF assms(1) r'] set_uniqueIds_cong [OF eq, of cur] by simp
    have same: "Number (primaryId cur results') = Number (primaryId cur results)"
      using c3 [OF eq] .
    have ncur: "Number cur = Some (id_value cur)"
      using assms(1) by (rule numeric_id_Number)
    have away: "\<forall>i\<in>set (uniqueIds cur results). Number i \<noteq> Number cur"
      by (simp add: set_uniqueIds ncur num_neq_Some)
    have sub: "set (uniqueIds cur results) \<subseteq> obj_id ` set results"
      by (auto simp: set_uniqueIds)
    show ?thesis
    proof (cases "primaryId cur results = cur")
      case True
      with same away mem' show ?thesis by auto
    next
      case False
      with mem have p: "primaryId cur results \<in> set (uniqueIds cur results)" by simp
      with same away have "primaryId cur results' \<noteq> cur" by auto
      with mem' have p': "primaryId cur results' \<in> set (uniqueIds cur results)" by simp
      from p p' sub same inj show ?thesis
        by (meson inj_onD subsetD)
    qed
  qed
  from mem c2 c3 c4 show ?thesis by blast
qed

theorem canonical_is_numeric_minimum_witness:
  "numeric_id (IdStr ''10'') \<and> numeric_id (IdStr ''9'') \<and> numeric_id (IdStr ''100'')
   \<and> primaryId (IdStr ''10'') [\<lparr>obj_id = IdStr ''100''\<rparr>, \<lparr>obj_id = IdStr ''9''\<rparr>] = IdStr ''9''
   \<and> primaryId (IdStr ''10'') [\<lparr>obj_id = IdStr ''9''\<rparr>, \<lparr>obj_id = IdStr ''100''\<rparr>] = IdStr ''9''
   \<and> Number (primaryId (IdStr ''10'') [\<lparr>obj_id = IdStr ''9''\<rparr>, \<lparr>obj_id = IdStr ''100''\<rparr>])
       = Number (primaryId (IdStr ''10'') [\<lparr>obj_id = IdStr ''100''\<rparr>, \<lparr>obj_id = IdStr ''9''\<rparr>])"
proof -
  have a: "numeric_id (IdStr ''10'')"
    by (simp add: numeric_id_def is_digit_def dec_value_def)
  have b: "\<forall>h\<in>set [\<lparr>obj_id = IdStr ''100''\<rparr>, \<lparr>obj_id = IdStr ''9''\<rparr>]. numeric_id (obj_id h)"
    by (simp add: numeric_id_def is_digit_def dec_value_def)
  have c: "set [\<lparr>obj_id = IdStr ''9''\<rparr>, \<lparr>obj_id = IdStr ''100''\<rparr>]
         = set [\<lparr>obj_id = IdStr ''100''\<rparr>, \<lparr>obj_id = IdStr ''9''\<rparr>]"
    by auto
  have d: "primaryId (IdStr ''10'') [\<lparr>obj_id = IdStr ''100''\<rparr>, \<lparr>obj_id = IdStr ''9''\<rparr>] = IdStr ''9''"
    by (simp add: primaryId_def allCompanyIds_def uniqueIds_def matchingIds_def js_unique_def
        js_sort_def compare_ids_def num_neq_def is_digit_def dec_value_def)
  have e: "primaryId (IdStr ''10'') [\<lparr>obj_id = IdStr ''9''\<rparr>, \<lparr>obj_id = IdStr ''100''\<rparr>] = IdStr ''9''"
    by (simp add: primaryId_def allCompanyIds_def uniqueIds_def matchingIds_def js_unique_def
        js_sort_def compare_ids_def num_neq_def is_digit_def dec_value_def)
  show ?thesis
    using a b c d e canonical_is_numeric_minimum [OF a b] by simp
qed

section \<open>The search criteria\<close>

lemma secondaryFilters_loop_eq:
  "secondaryFilters_loop props ps acc =
     acc @ map (secondaryFilter props) (filter (\<lambda>p. truthy (props p)) ps)"
  by (induction ps arbitrary: acc) (auto simp: truthy_def secondaryFilter_def split: option.splits)

text \<open>
  C8. For a record with a non-empty identifying attribute, the query has one filter group
  per secondary attribute that has a non-empty value, in the order of the configuration, each
  group made of the equality filter on the identifying attribute and the equality filter on
  that secondary attribute; with no secondary value the query is the single group holding the
  identifying-attribute filter alone.
\<close>

theorem filter_groups_per_secondary_attribute:
  assumes "props DEDUPE_PROPERTY = Some v" and "v \<noteq> []"
  shows "build_filterGroups props =
           (if \<forall>p\<in>set SECONDARY_PROPERTIES. \<not> truthy (props p)
            then [\<lparr>filters = [\<lparr>propertyName = DEDUPE_PROPERTY, operator = ''EQ'', val = v\<rparr>]\<rparr>]
            else map (\<lambda>p. \<lparr>filters = [\<lparr>propertyName = DEDUPE_PROPERTY, operator = ''EQ'', val = v\<rparr>,
                                      \<lparr>propertyName = p, operator = ''EQ'', val = the (props p)\<rparr>]\<rparr>)
                   (filter (\<lambda>p. truthy (props p)) SECONDARY_PROPERTIES))
       \<and> length (build_filterGroups props) =
           max 1 (card {p \<in> set SECONDARY_PROPERTIES. truthy (props p)})"
proof -
  let ?present = "filter (\<lambda>p. truthy (props p)) SECONDARY_PROPERTIES"
  have sf: "secondaryFilters_loop props SECONDARY_PROPERTIES [] = map (secondaryFilter props) ?present"
    by (simp add: secondaryFilters_loop_eq)
  have the_eq: "map (secondaryFilter props) ?present =
                map (\<lambda>p. \<lparr>propertyName = p, operator = ''EQ'', val = the (props p)\<rparr>) ?present"
    by (rule map_cong) (auto simp: secondaryFilter_def truthy_def split: option.splits)
  have empty_iff: "?present = [] \<longleftrightarrow> (\<forall>p\<in>set SECONDARY_PROPERTIES. \<not> truthy (props p))"
    by (simp add: filter_empty_conv)
  have eq: "build_filterGroups props =
           (if \<forall>p\<in>set SECONDARY_PROPERTIES. \<not> truthy (props p)
            then [\<lparr>filters = [\<lparr>propertyName = DEDUPE_PROPERTY, operator = ''EQ'', val = v\<rparr>]\<rparr>]
            else map (\<lambda>p. \<lparr>filters = [\<lparr>propertyName = DEDUPE_PROPERTY, operator = ''EQ'', val = v\<rparr>,
                                      \<lparr>propertyName = p, operator = ''EQ'', val = the (props p)\<rparr>]\<rparr>)
                   ?present)"
    using assms empty_iff
    by (simp add: build_filterGroups_def sf the_eq nameFilter_def o_def del: set_filter)
  have d: "distinct SECONDARY_PROPERTIES"
    by (simp add: SECONDARY_PROPERTIES_def)
  have len: "length ?present = card {p \<in> set SECONDARY_PROPERTIES. truthy (props p)}"
    using distinct_card [of ?present] d by simp
  have "length (build_filterGroups props) =
           max 1 (card {p \<in> set SECONDARY_PROPERTIES. truthy (props p)})"
  proof (cases "?present = []")
    case True
    with eq empty_iff len show ?thesis by simp
  next
    case False
    with empty_iff have ne: "\<not> (\<forall>p\<in>set SECONDARY_PROPERTIES. \<not> truthy (props p))"
      by blast
    have "length (build_filterGroups props) = length ?present"
      unfolding eq if_not_P [OF ne] length_map ..
    moreover have "0 < length ?present"
      using False by simp
    ultimately show ?thesis
      unfolding len by linarith
  qed
  with eq show ?thesis by blast
qed

theorem filter_groups_per_secondary_attribute_witness:
  "acme DEDUPE_PROPERTY = Some ''Acme'' \<and> ''Acme'' \<noteq> []
   \<and> build_filterGroups acme =
       [\<lparr>filters = [\<lparr>propertyName = ''name'', operator = ''EQ'', val = ''Acme''\<rparr>,
                    \<lparr>propertyName = ''domain'', operator = ''EQ'', val = ''acme.com''\<rparr>]\<rparr>]
   \<and> length (build_filterGroups acme) = 1"
proof -
  have a: "acme DEDUPE_PROPERTY = Some ''Acme''"
    by (simp add: acme_def DEDUPE_PROPERTY_def)
  have b: "''Acme'' \<noteq> []"
    by simp
  have c: "filter (\<lambda>p. truthy (acme p)) SECONDARY_PROPERTIES = [''domain'']"
    by (simp add: acme_def SECONDARY_PROPERTIES_def truthy_def)
  have d: "\<not> (\<forall>p\<in>set SECONDARY_PROPERTIES. \<not> truthy (acme p))"
    by (simp add: acme_def SECONDARY_PROPERTIES_def truthy_def)
  have e: "the (acme ''domain'') = ''acme.com''"
    by (simp add: acme_def)
  show ?thesis
    using a b filter_groups_per_secondary_attribute [of acme "''Acme''"]
    by (simp add: c d e DEDUPE_PROPERTY_def del: set_filter)
qed

section \<open>What every invocation does\<close>

lemmas chain_defs =
  markAsMerged_def mergeCompanies_def markAsPrimary_def perform_def log_and_rethrow_def
  callback_def floating_def Let_def

lemma merge_into_primary_faithful: "faithful_run w (merge_into_primary R w cur p)"
  by (auto simp: faithful_run_def aborted_at_failure_def status_only_def error_prefixes_def
      merge_into_primary_def chain_defs split: prod.splits sum.splits)

lemma merge_into_current_faithful: "faithful_run w (merge_into_current R w cur results)"
  by (auto simp: faithful_run_def aborted_at_failure_def status_only_def error_prefixes_def
      merge_into_current_def chain_defs split: prod.splits sum.splits)

lemma markAsPrimary_faithful: "faithful_run w (floating (markAsPrimary R w cur True))"
  by (auto simp: faithful_run_def aborted_at_failure_def status_only_def error_prefixes_def
      chain_defs split: prod.splits sum.splits)

lemma after_search_faithful: "faithful_run w (after_search R w cur results)"
  by (simp add: after_search_def merge_into_primary_faithful merge_into_current_faithful
      markAsPrimary_faithful)

lemma faithful_run_after_success:
  assumes "faithful_run w' res"
    and "trace w' = trace w @ [(c, None)]" and "status_only c"
    and "callbacks w' = callbacks w" and "console_error w' = console_error w"
  shows "faithful_run w res"
proof -
  obtain e w2 where res: "res = (e, w2)" by (cases res)
  from assms(1) res obtain new where new: "trace w2 = trace w' @ new"
    "aborted_at_failure e new" "list_all (\<lambda>x. status_only (fst x)) new"
    and rest: "(case e of
                None \<Rightarrow> (\<exists>out. callbacks w2 = callbacks w' @ [out] \<and> map_of out ''error'' = None)
                         \<and> console_error w2 = console_error w'
              | Some msg \<Rightarrow> callbacks w2 = callbacks w'
                  \<and> (console_error w2 = console_error w'
                     \<or> (\<exists>prefix\<in>set error_prefixes.
                           console_error w2 = console_error w' @ [prefix @ msg])))"
    by (auto simp: faithful_run_def)
  have a: "trace w2 = trace w @ ((c, None) # new)"
    using new(1) assms(2) by simp
  have b: "aborted_at_failure e ((c, None) # new)"
    using new(2) by (auto simp: aborted_at_failure_def split: option.splits)
  have c: "list_all (\<lambda>x. status_only (fst x)) ((c, None) # new)"
    using new(3) assms(3) by simp
  note rest' = rest [unfolded assms(4) assms(5)]
  show ?thesis
    unfolding faithful_run_def res prod.case
    using a b c rest' by (intro exI [of _ "(c, None) # new"]) simp
qed

lemma after_fetch_faithful: "faithful_run w (after_fetch R w cur props)"
proof -
  let ?req = "search_request_of (build_filterGroups props)"
  obtain r s' where d: "doSearch R (remote_state w) ?req = (r, s')"
    by (cases "doSearch R (remote_state w) ?req")
  show ?thesis
  proof (cases "props DEDUPLICATION_STATUS_PROPERTY = Some ''merged''")
    case True
    then show ?thesis
      by (simp add: after_fetch_def faithful_run_def aborted_at_failure_def callback_def)
  next
    case live: False
    show ?thesis
    proof (cases "length (build_filterGroups props) = 0")
      case True
      with live show ?thesis
        by (simp add: after_fetch_def markAsPrimary_faithful)
    next
      case False
      show ?thesis
      proof (cases r)
        case (Inl e)
        with live False d show ?thesis
          by (simp add: after_fetch_def perform_def log_and_rethrow_def faithful_run_def
              aborted_at_failure_def status_only_def error_prefixes_def)
      next
        case (Inr results)
        let ?w' = "w\<lparr>remote_state := s', trace := trace w @ [(DoSearch ?req, None)]\<rparr>"
        have "faithful_run ?w' (after_search R ?w' cur results)"
          by (rule after_search_faithful)
        then have "faithful_run w (after_search R ?w' cur results)"
          by (rule faithful_run_after_success [where c = "DoSearch ?req"])
            (simp_all add: status_only_def)
        with live False d Inr show ?thesis
          by (simp add: after_fetch_def perform_def)
      qed
    qed
  qed
qed

lemma main_faithful:
  "faithful_run \<lparr>remote_state = s0, trace = [], console_error = [], callbacks = []\<rparr> (main R s0 ev)"
proof -
  let ?w0 = "\<lparr>remote_state = s0, trace = [], console_error = [], callbacks = []\<rparr>"
  let ?c = "GetById (objectId ev) ALL_PROPERTIES"
  obtain r s' where g: "getById R s0 (objectId ev) ALL_PROPERTIES = (r, s')"
    by (cases "getById R s0 (objectId ev) ALL_PROPERTIES")
  show ?thesis
  proof (cases r)
    case (Inl e)
    with g show ?thesis
      by (simp add: main_def perform_def log_and_rethrow_def faithful_run_def
          aborted_at_failure_def status_only_def error_prefixes_def)
  next
    case (Inr props)
    let ?w' = "?w0\<lparr>remote_state := s', trace := trace ?w0 @ [(?c, None)]\<rparr>"
    have "faithful_run ?w' (after_fetch R ?w' (objectId ev) props)"
      by (rule after_fetch_faithful)
    then have "faithful_run ?w0 (after_fetch R ?w' (objectId ev) props)"
      by (rule faithful_run_after_success [where c = ?c]) (simp_all add: status_only_def)
    with g Inr show ?thesis
      by (simp add: main_def perform_def Let_def)
  qed
qed

lemmas id_defs =
  primaryId_def allCompanyIds_def uniqueIds_def matchingIds_def duplicateToMerge_def
  js_unique_def js_sort_def compare_ids_def num_neq_def is_digit_def dec_value_def numeric_id_def

lemmas query_defs =
  search_request_of_def build_filterGroups_def nameFilter_def DEDUPE_PROPERTY_def
  SECONDARY_PROPERTIES_def DEDUPLICATION_STATUS_PROPERTY_def

lemmas run_defs =
  main_def after_fetch_def after_search_def merge_into_current_def merge_into_primary_def
  chain_defs scripted_remote_def acme_def

lemma main_unfold:
  "main R s0 ev =
     (case getById R s0 (objectId ev) ALL_PROPERTIES of
        (Inl e, s1) \<Rightarrow>
          (Some e, \<lparr>remote_state = s1,
                     trace = [(GetById (objectId ev) ALL_PROPERTIES, Some e)],
                     console_error = [''Error getting company details: '' @ e],
                     callbacks = []\<rparr>)
      | (Inr props, s1) \<Rightarrow>
          after_fetch R \<lparr>remote_state = s1,
                          trace = [(GetById (objectId ev) ALL_PROPERTIES, None)],
                          console_error = [], callbacks = []\<rparr> (objectId ev) props)"
  by (simp add: main_def perform_def log_and_rethrow_def Let_def split: prod.splits sum.splits)

lemma run_merge_rejected:
  "main (scripted_remote (Inr acme) (Inr [\<lparr>obj_id = IdStr ''100''\<rparr>, \<lparr>obj_id = IdStr ''200''\<rparr>]) (Some 1))
        0 \<lparr>objectId = IdNum 200\<rparr> =
     (Some ''permission denied'',
      \<lparr>remote_state = 2,
       trace = [(GetById (IdNum 200) ALL_PROPERTIES, None),
                (DoSearch (search_request_of (build_filterGroups acme)), None),
                (Update (IdNum 200) [(''deduplication_status'', ''merged'')], None),
                (MergeReq (IdStr ''100'') (IdNum 200), Some ''permission denied'')],
       console_error = [''Error during merge process: permission denied''], callbacks = []\<rparr>)"
  by (simp add: run_defs id_defs query_defs)

lemma run_merged_into_primary:
  "main (scripted_remote (Inr acme) (Inr [\<lparr>obj_id = IdStr ''100''\<rparr>, \<lparr>obj_id = IdStr ''200''\<rparr>]) None)
        0 \<lparr>objectId = IdNum 200\<rparr> =
     (None,
      \<lparr>remote_state = 3,
       trace = [(GetById (IdNum 200) ALL_PROPERTIES, None),
                (DoSearch (search_request_of (build_filterGroups acme)), None),
                (Update (IdNum 200) [(''deduplication_status'', ''merged'')], None),
                (MergeReq (IdStr ''100'') (IdNum 200), None),
                (Update (IdStr ''100'') [(''deduplication_status'', ''primary'')], None)],
       console_error = [],
       callbacks = [[(''result'', VStr ''Successfully merged into primary company''),
                     (''primaryCompanyId'', VId (IdStr ''100'')),
                     (''mergedCompanyId'', VId (IdNum 200))]]\<rparr>)"
  by (simp add: run_defs id_defs query_defs)

lemma run_unsorted_search:
  "main (scripted_remote (Inr acme)
           (Inr [\<lparr>obj_id = IdStr ''30''\<rparr>, \<lparr>obj_id = IdStr ''20''\<rparr>, \<lparr>obj_id = IdStr ''10''\<rparr>]) None)
        0 \<lparr>objectId = IdNum 10\<rparr> =
     (None,
      \<lparr>remote_state = 3,
       trace = [(GetById (IdNum 10) ALL_PROPERTIES, None),
                (DoSearch (search_request_of (build_filterGroups acme)), None),
                (Update (IdStr ''30'') [(''deduplication_status'', ''merged'')], None),
                (MergeReq (IdNum 10) (IdStr ''30''), None),
                (Update (IdNum 10) [(''deduplication_status'', ''primary'')], None)],
       console_error = [],
       callbacks = [[(''result'', VStr ''Successfully merged duplicate into this company''),
                     (''primaryCompanyId'', VId (IdNum 10)),
                     (''mergedCompanyId'', VId (IdStr ''30'')),
                     (''remainingDuplicates'', VNum 1)]]\<rparr>)"
  by (simp add: run_defs id_defs query_defs)

lemma aborted_at_failure_last:
  assumes "aborted_at_failure e new" and "k < length new" and "snd (new ! k) = Some msg"
  shows "Suc k = length new \<and> e = Some msg"
proof (cases e)
  case None
  with assms show ?thesis
    by (auto simp: aborted_at_failure_def list_all_length)
next
  case (Some m)
  with assms(1) have ne: "new \<noteq> []" and l: "snd (last new) = Some m"
    and b: "\<forall>j<length (butlast new). snd (butlast new ! j) = None"
    by (auto simp: aborted_at_failure_def list_all_length)
  have "\<not> k < length new - 1"
  proof
    assume "k < length new - 1"
    then have "snd (butlast new ! k) = None" and "butlast new ! k = new ! k"
      using b by (simp_all add: nth_butlast)
    with assms(3) show False by simp
  qed
  with assms(2) have k: "k = length new - 1" by simp
  with ne have "new ! k = last new" by (simp add: last_conv_nth)
  with l assms(3) k ne Some show ?thesis by (cases new) auto
qed

lemma main_summary:
  obtains e w where "main R s0 ev = (e, w)"
    and "aborted_at_failure e (trace w)"
    and "list_all (\<lambda>x. status_only (fst x)) (trace w)"
    and "e = None \<Longrightarrow> \<exists>out. callbacks w = [out] \<and> map_of out ''error'' = None"
    and "e = None \<Longrightarrow> console_error w = []"
    and "\<And>msg. e = Some msg \<Longrightarrow> callbacks w = []"
    and "\<And>msg. e = Some msg \<Longrightarrow>
           console_error w = [] \<or> (\<exists>prefix\<in>set error_prefixes. console_error w = [prefix @ msg])"
proof -
  obtain e w where m: "main R s0 ev = (e, w)" by (cases "main R s0 ev")
  from main_faithful [of s0 R ev]
  obtain new where "trace w = new" "aborted_at_failure e new"
      "list_all (\<lambda>x. status_only (fst x)) new"
      "case e of
         None \<Rightarrow> (\<exists>out. callbacks w = [] @ [out] \<and> map_of out ''error'' = None)
                  \<and> console_error w = []
       | Some msg \<Rightarrow> callbacks w = []
           \<and> (console_error w = []
              \<or> (\<exists>prefix\<in>set error_prefixes. console_error w = [] @ [prefix @ msg]))"
    unfolding faithful_run_def m prod.case world.simps append_Nil by blast
  with m that show ?thesis
    by (cases e) simp_all
qed

text \<open>
  C1, as amended. When a remote call of an invocation fails, it is the last call issued; the
  invocation ends rejected with the error of that call, its message unchanged; the callback is
  not invoked, so no result field is reported; and the error log holds at most one line, one
  of the three prefixes followed by the message.
\<close>

theorem failure_aborts_and_rejects:
  "\<forall>k msg. k < length (trace (snd (main R s0 ev)))
            \<and> snd (trace (snd (main R s0 ev)) ! k) = Some msg \<longrightarrow>
       Suc k = length (trace (snd (main R s0 ev)))
     \<and> fst (main R s0 ev) = Some msg
     \<and> callbacks (snd (main R s0 ev)) = []
     \<and> console_error (snd (main R s0 ev)) \<in>
         {[], [''Error getting company details: '' @ msg],
          [''Error searching for companies: '' @ msg],
          [''Error during merge process: '' @ msg]}"
proof (intro allI impI)
  fix k msg
  assume a: "k < length (trace (snd (main R s0 ev)))
            \<and> snd (trace (snd (main R s0 ev)) ! k) = Some msg"
  obtain e w where m: "main R s0 ev = (e, w)"
    and ab: "aborted_at_failure e (trace w)"
    and cb: "\<And>msg. e = Some msg \<Longrightarrow> callbacks w = []"
    and lg: "\<And>msg. e = Some msg \<Longrightarrow>
           console_error w = [] \<or> (\<exists>prefix\<in>set error_prefixes. console_error w = [prefix @ msg])"
    by (rule main_summary [of R s0 ev]) blast
  from a m have "Suc k = length (trace w) \<and> e = Some msg"
    by (intro aborted_at_failure_last [OF ab]) simp_all
  with cb [of msg] lg [of msg] m show "Suc k = length (trace (snd (main R s0 ev)))
     \<and> fst (main R s0 ev) = Some msg
     \<and> callbacks (snd (main R s0 ev)) = []
     \<and> console_error (snd (main R s0 ev)) \<in>
         {[], [''Error getting company details: '' @ msg],
          [''Error searching for companies: '' @ msg],
          [''Error during merge process: '' @ msg]}"
    by (auto simp: error_prefixes_def)
qed

theorem failure_aborts_and_rejects_witness:
  "fst (main (scripted_remote (Inr acme)
               (Inr [\<lparr>obj_id = IdStr ''100''\<rparr>, \<lparr>obj_id = IdStr ''200''\<rparr>]) (Some 1))
          0 \<lparr>objectId = IdNum 200\<rparr>) = Some ''permission denied''
   \<and> callbacks (snd (main (scripted_remote (Inr acme)
               (Inr [\<lparr>obj_id = IdStr ''100''\<rparr>, \<lparr>obj_id = IdStr ''200''\<rparr>]) (Some 1))
          0 \<lparr>objectId = IdNum 200\<rparr>)) = []
   \<and> snd (trace (snd (main (scripted_remote (Inr acme)
               (Inr [\<lparr>obj_id = IdStr ''100''\<rparr>, \<lparr>obj_id = IdStr ''200''\<rparr>]) (Some 1))
          0 \<lparr>objectId = IdNum 200\<rparr>)) ! 3) = Some ''permission denied''
   \<and> length (trace (snd (main (scripted_remote (Inr acme)
               (Inr [\<lparr>obj_id = IdStr ''100''\<rparr>, \<lparr>obj_id = IdStr ''200''\<rparr>]) (Some 1))
          0 \<lparr>objectId = IdNum 200\<rparr>))) = 4"
proof -
  note inst = failure_aborts_and_rejects
    [rule_format, where k = 3 and msg = "''permission denied''"
       and R = "scripted_remote (Inr acme)
           (Inr [\<lparr>obj_id = IdStr ''100''\<rparr>, \<lparr>obj_id = IdStr ''200''\<rparr>]) (Some 1)"
       and ?s0.0 = 0 and ev = "\<lparr>objectId = IdNum 200\<rparr>"]
  show ?thesis
    unfolding run_merge_rejected using inst [unfolded run_merge_rejected] by simp
qed

text \<open>
  C1 as stated fails: when the fetch is rejected with \<open>boom\<close>, the invocation logs the
  message and ends rejected, and the callback is never invoked, so no \<open>error\<close> field is
  reported.
\<close>

theorem fetch_failure_reports_no_error_field:
  "main (scripted_remote (Inl ''boom'') (Inr []) None) 0 \<lparr>objectId = IdNum 10\<rparr> =
     (Some ''boom'',
      \<lparr>remote_state = 0, trace = [(GetById (IdNum 10) ALL_PROPERTIES, Some ''boom'')],
       console_error = [''Error getting company details: boom''], callbacks = []\<rparr>)"
  by (simp add: main_unfold scripted_remote_def)

lemma status_only_keys:
  "status_only (Update i ps) \<Longrightarrow> map fst ps = [DEDUPLICATION_STATUS_PROPERTY]"
  by (auto simp: status_only_def)

text \<open>
  C10. Every update issued by an invocation, and the update issued by \<open>markAsPrimary\<close> and
  by \<open>markAsMerged\<close>, has a property map with exactly one key, the deduplication status.
\<close>

theorem status_marks_write_one_key:
  "(\<forall>x\<in>set (trace (snd (main R s0 ev))). \<forall>i ps.
       fst x = Update i ps \<longrightarrow> map fst ps = [DEDUPLICATION_STATUS_PROPERTY])
   \<and> (\<exists>r. trace (snd (markAsPrimary R w c with_callback)) =
            trace w @ [(Update c [(DEDUPLICATION_STATUS_PROPERTY, ''primary'')], r)])
   \<and> (\<exists>r. trace (snd (markAsMerged R w c)) =
            trace w @ [(Update c [(DEDUPLICATION_STATUS_PROPERTY, ''merged'')], r)])"
proof -
  obtain e w' where m: "main R s0 ev = (e, w')"
    and "list_all (\<lambda>x. status_only (fst x)) (trace w')"
    by (rule main_summary [of R s0 ev]) blast
  then have a: "\<forall>x\<in>set (trace (snd (main R s0 ev))). \<forall>i ps.
       fst x = Update i ps \<longrightarrow> map fst ps = [DEDUPLICATION_STATUS_PROPERTY]"
    using m status_only_keys by (fastforce simp: list_all_iff)
  have b: "\<exists>r. trace (snd (markAsPrimary R w c with_callback)) =
            trace w @ [(Update c [(DEDUPLICATION_STATUS_PROPERTY, ''primary'')], r)]"
    by (auto simp: chain_defs split: prod.splits sum.splits)
  have c: "\<exists>r. trace (snd (markAsMerged R w c)) =
            trace w @ [(Update c [(DEDUPLICATION_STATUS_PROPERTY, ''merged'')], r)]"
    by (auto simp: chain_defs split: prod.splits sum.splits)
  from a b c show ?thesis by blast
qed

theorem status_marks_write_one_key_witness:
  "(Update (IdNum 200) [(''deduplication_status'', ''merged'')], None)
     \<in> set (trace (snd (main (scripted_remote (Inr acme)
               (Inr [\<lparr>obj_id = IdStr ''100''\<rparr>, \<lparr>obj_id = IdStr ''200''\<rparr>]) None)
          0 \<lparr>objectId = IdNum 200\<rparr>)))
   \<and> map fst [(''deduplication_status'', ''merged'')] = [DEDUPLICATION_STATUS_PROPERTY]"
proof -
  note inst = status_marks_write_one_key
    [THEN conjunct1, rule_format,
     where x = "(Update (IdNum 200) [(''deduplication_status'', ''merged'')], None)"
       and i = "IdNum 200" and ps = "[(''deduplication_status'', ''merged'')]"
       and R = "scripted_remote (Inr acme)
           (Inr [\<lparr>obj_id = IdStr ''100''\<rparr>, \<lparr>obj_id = IdStr ''200''\<rparr>]) None"
       and ?s0.0 = 0 and ev = "\<lparr>objectId = IdNum 200\<rparr>"]
  show ?thesis
    unfolding run_merged_into_primary using inst [unfolded run_merged_into_primary] by simp
qed

section \<open>The status gate and the record without a name\<close>

lemma build_filterGroups_empty:
  "\<not> truthy (props DEDUPE_PROPERTY) \<Longrightarrow> build_filterGroups props = []"
  by (auto simp: build_filterGroups_def truthy_def split: option.splits)

lemma build_filterGroups_nonempty:
  "truthy (props DEDUPE_PROPERTY) \<Longrightarrow> build_filterGroups props \<noteq> []"
  by (auto simp: build_filterGroups_def truthy_def Let_def split: option.splits)

lemma after_search_extends:
  "\<exists>new. trace (snd (after_search R w cur results)) = trace w @ new"
  using after_search_faithful [of w R cur results]
  by (cases "after_search R w cur results") (auto simp: faithful_run_def)

lemma after_search_outputs:
  "\<forall>out\<in>set (callbacks (snd (after_search R w cur results))).
     out \<in> set (callbacks w)
     \<or> map_of out ''result'' \<noteq> Some (VStr ''Already merged into another company'')"
  by (auto simp: after_search_def merge_into_current_def merge_into_primary_def chain_defs
      split: prod.splits sum.splits)

lemma markAsPrimary_floating:
  "floating (markAsPrimary R w c True) =
     (case update R (remote_state w) c [(DEDUPLICATION_STATUS_PROPERTY, ''primary'')] of
        (Inl e, s') \<Rightarrow>
          (Some e, w\<lparr>remote_state := s',
                     trace := trace w @
                       [(Update c [(DEDUPLICATION_STATUS_PROPERTY, ''primary'')], Some e)]\<rparr>)
      | (Inr u, s') \<Rightarrow>
          (None, w\<lparr>remote_state := s',
                   trace := trace w @
                       [(Update c [(DEDUPLICATION_STATUS_PROPERTY, ''primary'')], None)],
                   callbacks := callbacks w @
                       [[(''result'', VStr ''Marked as primary''),
                         (''primaryCompanyId'', VId c)]]\<rparr>))"
  by (simp add: chain_defs split: prod.splits sum.splits)

text \<open>
  C4. When the fetched status is \<open>merged\<close>, the invocation makes no call after the fetch
  and reports the already-merged outcome with the record's own identifier. For every other
  status the invocation goes on: the fetch is followed by the search or by the update that
  marks the record primary, and the already-merged outcome is not reported.
\<close>

theorem status_gate:
  assumes "getById R s0 (objectId ev) ALL_PROPERTIES = (Inr props, s1)"
  shows "(props DEDUPLICATION_STATUS_PROPERTY = Some ''merged'' \<longrightarrow>
            main R s0 ev =
              (None,
               \<lparr>remote_state = s1,
                trace = [(GetById (objectId ev) ALL_PROPERTIES, None)],
                console_error = [],
                callbacks = [[(''result'', VStr ''Already merged into another company''),
                              (''companyId'', VId (objectId ev))]]\<rparr>))
       \<and> (props DEDUPLICATION_STATUS_PROPERTY \<noteq> Some ''merged'' \<longrightarrow>
            (\<exists>c r rest.
               trace (snd (main R s0 ev)) =
                 (GetById (objectId ev) ALL_PROPERTIES, None) # (c, r) # rest
               \<and> (c = DoSearch (search_request_of (build_filterGroups props))
                  \<or> c = Update (objectId ev) [(DEDUPLICATION_STATUS_PROPERTY, ''primary'')]))
            \<and> (\<forall>out\<in>set (callbacks (snd (main R s0 ev))).
                  map_of out ''result'' \<noteq> Some (VStr ''Already merged into another company'')))"
proof (intro conjI impI)
  assume "props DEDUPLICATION_STATUS_PROPERTY = Some ''merged''"
  with assms show "main R s0 ev =
              (None,
               \<lparr>remote_state = s1,
                trace = [(GetById (objectId ev) ALL_PROPERTIES, None)],
                console_error = [],
                callbacks = [[(''result'', VStr ''Already merged into another company''),
                              (''companyId'', VId (objectId ev))]]\<rparr>)"
    by (simp add: main_unfold after_fetch_def callback_def)
next
  let ?cur = "objectId ev"
  let ?w1 = "\<lparr>remote_state = s1, trace = [(GetById ?cur ALL_PROPERTIES, None)],
              console_error = [], callbacks = []\<rparr>"
  let ?req = "search_request_of (build_filterGroups props)"
  assume live: "props DEDUPLICATION_STATUS_PROPERTY \<noteq> Some ''merged''"
  have m: "main R s0 ev = after_fetch R ?w1 ?cur props"
    using assms by (simp add: main_unfold)
  obtain r s2 where d: "doSearch R s1 ?req = (r, s2)"
    by (cases "doSearch R s1 ?req")
  let ?w2 = "\<lparr>remote_state = s2,
              trace = [(GetById ?cur ALL_PROPERTIES, None), (DoSearch ?req, None)],
              console_error = [], callbacks = []\<rparr>"
  consider (nogroups) "build_filterGroups props = []"
    | (failed) e where "build_filterGroups props \<noteq> []" "r = Inl e"
    | (found) results where "build_filterGroups props \<noteq> []" "r = Inr results"
    by (cases r) auto
  then have "(\<exists>c r rest.
               trace (snd (main R s0 ev)) =
                 (GetById ?cur ALL_PROPERTIES, None) # (c, r) # rest
               \<and> (c = DoSearch ?req
                  \<or> c = Update ?cur [(DEDUPLICATION_STATUS_PROPERTY, ''primary'')]))
            \<and> (\<forall>out\<in>set (callbacks (snd (main R s0 ev))).
                  map_of out ''result'' \<noteq> Some (VStr ''Already merged into another company''))"
  proof cases
    case nogroups
    with live show ?thesis
      unfolding m
      by (cases "update R s1 ?cur [(DEDUPLICATION_STATUS_PROPERTY, ''primary'')]")
        (auto simp: after_fetch_def markAsPrimary_floating split: sum.splits)
  next
    case failed
    with live d show ?thesis
      unfolding m by (simp add: after_fetch_def perform_def log_and_rethrow_def)
  next
    case found
    with live d have a: "after_fetch R ?w1 ?cur props = after_search R ?w2 ?cur results"
      by (simp add: after_fetch_def perform_def)
    obtain new where new: "trace (snd (after_search R ?w2 ?cur results)) = trace ?w2 @ new"
      using after_search_extends by blast
    have "\<forall>out\<in>set (callbacks (snd (after_search R ?w2 ?cur results))).
            map_of out ''result'' \<noteq> Some (VStr ''Already merged into another company'')"
      using after_search_outputs [of R ?w2 ?cur results] by simp
    with new show ?thesis
      unfolding m a by simp
  qed
  then show "\<exists>c r rest.
               trace (snd (main R s0 ev)) =
                 (GetById ?cur ALL_PROPERTIES, None) # (c, r) # rest
               \<and> (c = DoSearch ?req
                  \<or> c = Update ?cur [(DEDUPLICATION_STATUS_PROPERTY, ''primary'')])"
    and "\<forall>out\<in>set (callbacks (snd (main R s0 ev))).
                  map_of out ''result'' \<noteq> Some (VStr ''Already merged into another company'')"
    by blast+
qed

theorem status_gate_witness:
  "merged_acme DEDUPLICATION_STATUS_PROPERTY = Some ''merged''
   \<and> main (scripted_remote (Inr merged_acme) (Inr []) None) 0 \<lparr>objectId = IdNum 200\<rparr> =
       (None,
        \<lparr>remote_state = 0,
         trace = [(GetById (IdNum 200) ALL_PROPERTIES, None)],
         console_error = [],
         callbacks = [[(''result'', VStr ''Already merged into another company''),
                       (''companyId'', VId (IdNum 200))]]\<rparr>)
   \<and> acme DEDUPLICATION_STATUS_PROPERTY = None
   \<and> 2 \<le> length (trace (snd (main (scripted_remote (Inr acme) (Inr []) None) 0
                                  \<lparr>objectId = IdNum 200\<rparr>)))"
proof -
  have a: "getById (scripted_remote (Inr merged_acme) (Inr []) None) 0
             (objectId \<lparr>objectId = IdNum 200\<rparr>) ALL_PROPERTIES = (Inr merged_acme, 0)"
    by (simp add: scripted_remote_def)
  have b: "merged_acme DEDUPLICATION_STATUS_PROPERTY = Some ''merged''"
    by (simp add: merged_acme_def DEDUPLICATION_STATUS_PROPERTY_def)
  have c: "getById (scripted_remote (Inr acme) (Inr []) None) 0
             (objectId \<lparr>objectId = IdNum 200\<rparr>) ALL_PROPERTIES = (Inr acme, 0)"
    by (simp add: scripted_remote_def)
  have d: "acme DEDUPLICATION_STATUS_PROPERTY = None"
    by (simp add: acme_def DEDUPLICATION_STATUS_PROPERTY_def)
  have e: "2 \<le> length (trace (snd (main (scripted_remote (Inr acme) (Inr []) None) 0
                                  \<lparr>objectId = IdNum 200\<rparr>)))"
    using status_gate [OF c] d by auto
  show ?thesis
    using a b d e status_gate [OF a] by simp
qed

lemma main_reaches_search:
  assumes "getById R s0 (objectId ev) ALL_PROPERTIES = (Inr props, s1)"
    and "props DEDUPLICATION_STATUS_PROPERTY \<noteq> Some ''merged''"
    and "truthy (props DEDUPE_PROPERTY)"
    and "doSearch R s1 (search_request_of (build_filterGroups props)) = (Inr results, s2)"
  shows "main R s0 ev =
     after_search R
       \<lparr>remote_state = s2,
        trace = [(GetById (objectId ev) ALL_PROPERTIES, None),
                 (DoSearch (search_request_of (build_filterGroups props)), None)],
        console_error = [], callbacks = []\<rparr>
       (objectId ev) results"
  using assms build_filterGroups_nonempty [of props]
  by (simp add: main_unfold after_fetch_def perform_def)

text \<open>
  C7, as amended. When the fetched status is not \<open>merged\<close> and the identifying attribute is
  empty or missing, the only call after the fetch is the update that marks the current record
  primary (no search is made), no payload with an \<open>error\<close> field is reported, and when the
  update succeeds the invocation reports \<open>Marked as primary\<close> with the record's identifier.
\<close>

theorem no_identifying_value_marks_primary:
  assumes "getById R s0 (objectId ev) ALL_PROPERTIES = (Inr props, s1)"
    and "\<not> truthy (props DEDUPE_PROPERTY)"
    and "props DEDUPLICATION_STATUS_PROPERTY \<noteq> Some ''merged''"
    and "update R s1 (objectId ev) [(DEDUPLICATION_STATUS_PROPERTY, ''primary'')] = (r, s2)"
  shows "map fst (trace (snd (main R s0 ev))) =
           [GetById (objectId ev) ALL_PROPERTIES,
            Update (objectId ev) [(DEDUPLICATION_STATUS_PROPERTY, ''primary'')]]
       \<and> (\<forall>out\<in>set (callbacks (snd (main R s0 ev))). map_of out ''error'' = None)
       \<and> (r = Inr () \<longrightarrow>
            main R s0 ev =
              (None,
               \<lparr>remote_state = s2,
                trace = [(GetById (objectId ev) ALL_PROPERTIES, None),
                         (Update (objectId ev) [(DEDUPLICATION_STATUS_PROPERTY, ''primary'')], None)],
                console_error = [],
                callbacks = [[(''result'', VStr ''Marked as primary''),
                              (''primaryCompanyId'', VId (objectId ev))]]\<rparr>))"
proof -
  let ?w1 = "\<lparr>remote_state = s1, trace = [(GetById (objectId ev) ALL_PROPERTIES, None)],
              console_error = [], callbacks = []\<rparr>"
  have "main R s0 ev = floating (markAsPrimary R ?w1 (objectId ev) True)"
    using assms(1,2,3) build_filterGroups_empty [of props]
    by (simp add: main_unfold after_fetch_def)
  with assms(4) show ?thesis
    by (cases r) (simp_all add: markAsPrimary_floating)
qed

theorem no_identifying_value_marks_primary_witness:
  "\<not> truthy (nameless DEDUPE_PROPERTY)
   \<and> main (scripted_remote (Inr nameless) (Inr []) None) 0 \<lparr>objectId = IdNum 7\<rparr> =
       (None,
        \<lparr>remote_state = 1,
         trace = [(GetById (IdNum 7) ALL_PROPERTIES, None),
                  (Update (IdNum 7) [(DEDUPLICATION_STATUS_PROPERTY, ''primary'')], None)],
         console_error = [],
         callbacks = [[(''result'', VStr ''Marked as primary''),
                       (''primaryCompanyId'', VId (IdNum 7))]]\<rparr>)"
proof -
  have a: "getById (scripted_remote (Inr nameless) (Inr []) None) 0
             (objectId \<lparr>objectId = IdNum 7\<rparr>) ALL_PROPERTIES = (Inr nameless, 0)"
    by (simp add: scripted_remote_def)
  have b: "\<not> truthy (nameless DEDUPE_PROPERTY)"
    by (simp add: nameless_def truthy_def DEDUPE_PROPERTY_def)
  have c: "nameless DEDUPLICATION_STATUS_PROPERTY \<noteq> Some ''merged''"
    by (simp add: nameless_def DEDUPLICATION_STATUS_PROPERTY_def)
  have d: "update (scripted_remote (Inr nameless) (Inr []) None) 0
             (objectId \<lparr>objectId = IdNum 7\<rparr>) [(DEDUPLICATION_STATUS_PROPERTY, ''primary'')]
           = (Inr (), 1)"
    by (simp add: scripted_remote_def)
  show ?thesis
    using b no_identifying_value_marks_primary [OF a b c d] by simp
qed

text \<open>
  C7 as stated fails: a record without a name whose status is \<open>merged\<close> is reported as
  already merged, and no update marks it primary.
\<close>

theorem merged_record_without_name_is_not_marked:
  "merged_nameless DEDUPE_PROPERTY = None
   \<and> main (scripted_remote (Inr merged_nameless) (Inr []) None) 0 \<lparr>objectId = IdNum 7\<rparr> =
       (None,
        \<lparr>remote_state = 0,
         trace = [(GetById (IdNum 7) ALL_PROPERTIES, None)],
         console_error = [],
         callbacks = [[(''result'', VStr ''Already merged into another company''),
                       (''companyId'', VId (IdNum 7))]]\<rparr>)"
  by (simp add: main_unfold after_fetch_def callback_def scripted_remote_def merged_nameless_def
      DEDUPE_PROPERTY_def DEDUPLICATION_STATUS_PROPERTY_def)

lemma primaryId_no_candidates: "uniqueIds cur results = [] \<Longrightarrow> primaryId cur results = cur"
  by (simp add: primaryId_def allCompanyIds_def js_sort_def)

lemma merge_into_primary_calls:
  "map fst (trace (snd (merge_into_primary R w cur p))) \<in>
     {map fst (trace w) @ [Update cur [(DEDUPLICATION_STATUS_PROPERTY, ''merged'')]],
      map fst (trace w) @ [Update cur [(DEDUPLICATION_STATUS_PROPERTY, ''merged'')],
                           MergeReq p cur],
      map fst (trace w) @ [Update cur [(DEDUPLICATION_STATUS_PROPERTY, ''merged'')],
                           MergeReq p cur,
                           Update p [(DEDUPLICATION_STATUS_PROPERTY, ''primary'')]]}"
  by (auto simp: merge_into_primary_def chain_defs split: prod.splits sum.splits)

lemma merge_into_primary_success:
  assumes "update R (remote_state w) cur [(DEDUPLICATION_STATUS_PROPERTY, ''merged'')] = (Inr (), s3)"
    and "apiRequest R s3 p cur = (Inr (), s4)"
    and "update R s4 p [(DEDUPLICATION_STATUS_PROPERTY, ''primary'')] = (Inr (), s5)"
  shows "merge_into_primary R w cur p =
     (None,
      w\<lparr>remote_state := s5,
        trace := trace w @
          [(Update cur [(DEDUPLICATION_STATUS_PROPERTY, ''merged'')], None),
           (MergeReq p cur, None),
           (Update p [(DEDUPLICATION_STATUS_PROPERTY, ''primary'')], None)],
        callbacks := callbacks w @
          [[(''result'', VStr ''Successfully merged into primary company''),
            (''primaryCompanyId'', VId p),
            (''mergedCompanyId'', VId cur)]]\<rparr>)"
  using assms by (simp add: merge_into_primary_def chain_defs)

lemma merge_into_current_calls:
  "map fst (trace (snd (merge_into_current R w cur results))) \<in>
     {map fst (trace w) @
        [Update (duplicateToMerge cur results) [(DEDUPLICATION_STATUS_PROPERTY, ''merged'')]],
      map fst (trace w) @
        [Update (duplicateToMerge cur results) [(DEDUPLICATION_STATUS_PROPERTY, ''merged'')],
         MergeReq cur (duplicateToMerge cur results)],
      map fst (trace w) @
        [Update (duplicateToMerge cur results) [(DEDUPLICATION_STATUS_PROPERTY, ''merged'')],
         MergeReq cur (duplicateToMerge cur results),
         Update cur [(DEDUPLICATION_STATUS_PROPERTY, ''primary'')]]}"
  by (auto simp: merge_into_current_def chain_defs split: prod.splits sum.splits)

lemma merge_into_current_success:
  assumes "update R (remote_state w) (duplicateToMerge cur results)
             [(DEDUPLICATION_STATUS_PROPERTY, ''merged'')] = (Inr (), s3)"
    and "apiRequest R s3 cur (duplicateToMerge cur results) = (Inr (), s4)"
    and "update R s4 cur [(DEDUPLICATION_STATUS_PROPERTY, ''primary'')] = (Inr (), s5)"
  shows "merge_into_current R w cur results =
     (None,
      w\<lparr>remote_state := s5,
        trace := trace w @
          [(Update (duplicateToMerge cur results) [(DEDUPLICATION_STATUS_PROPERTY, ''merged'')], None),
           (MergeReq cur (duplicateToMerge cur results), None),
           (Update cur [(DEDUPLICATION_STATUS_PROPERTY, ''primary'')], None)],
        callbacks := callbacks w @
          [[(''result'', VStr ''Successfully merged duplicate into this company''),
            (''primaryCompanyId'', VId cur),
            (''mergedCompanyId'', VId (duplicateToMerge cur results)),
            (''remainingDuplicates'', VNum (int (length (uniqueIds cur results)) - 1))]]\<rparr>)"
  using assms by (simp add: merge_into_current_def chain_defs)

lemma after_search_branch_B:
  "primaryId cur results \<noteq> cur \<Longrightarrow>
   after_search R w cur results = merge_into_primary R w cur (primaryId cur results)"
  using primaryId_no_candidates [of cur results] by (auto simp: after_search_def)

lemma after_search_branch_A:
  "uniqueIds cur results \<noteq> [] \<Longrightarrow> primaryId cur results = cur \<Longrightarrow>
   after_search R w cur results = merge_into_current R w cur results"
  by (simp add: after_search_def)

section \<open>The two merge directions\<close>

lemma uniqueIds_away:
  assumes "numeric_id cur"
  shows "\<forall>i\<in>set (uniqueIds cur results). Number i \<noteq> Number cur"
  using numeric_id_Number [OF assms] by (simp add: set_uniqueIds num_neq_Some)

text \<open>
  C5. When the canonical identifier differs from the current one (it is then numerically
  smaller), the calls after the search are, in this order and without a gap, the update
  marking the current record merged, the merge request with the canonical record as primary
  and the current record as the one to merge, and the update marking the canonical record
  primary: what is issued is always a prefix of this sequence. When the three succeed the
  whole sequence is issued and the outcome names both identifiers.
\<close>

theorem merge_into_primary_sequence:
  assumes "getById R s0 (objectId ev) ALL_PROPERTIES = (Inr props, s1)"
    and "props DEDUPLICATION_STATUS_PROPERTY \<noteq> Some ''merged''"
    and "truthy (props DEDUPE_PROPERTY)"
    and "doSearch R s1 (search_request_of (build_filterGroups props)) = (Inr results, s2)"
    and "numeric_id (objectId ev)" and "\<forall>h\<in>set results. numeric_id (obj_id h)"
    and "primaryId (objectId ev) results \<noteq> objectId ev"
  shows "(\<exists>n m. Number (primaryId (objectId ev) results) = Some n
             \<and> Number (objectId ev) = Some m \<and> n < m)
       \<and> map fst (trace (snd (main R s0 ev))) \<in>
           {[GetById (objectId ev) ALL_PROPERTIES,
             DoSearch (search_request_of (build_filterGroups props)),
             Update (objectId ev) [(DEDUPLICATION_STATUS_PROPERTY, ''merged'')]],
            [GetById (objectId ev) ALL_PROPERTIES,
             DoSearch (search_request_of (build_filterGroups props)),
             Update (objectId ev) [(DEDUPLICATION_STATUS_PROPERTY, ''merged'')],
             MergeReq (primaryId (objectId ev) results) (objectId ev)],
            [GetById (objectId ev) ALL_PROPERTIES,
             DoSearch (search_request_of (build_filterGroups props)),
             Update (objectId ev) [(DEDUPLICATION_STATUS_PROPERTY, ''merged'')],
             MergeReq (primaryId (objectId ev) results) (objectId ev),
             Update (primaryId (objectId ev) results)
               [(DEDUPLICATION_STATUS_PROPERTY, ''primary'')]]}
       \<and> (update R s2 (objectId ev) [(DEDUPLICATION_STATUS_PROPERTY, ''merged'')] = (Inr (), s3)
          \<and> apiRequest R s3 (primaryId (objectId ev) results) (objectId ev) = (Inr (), s4)
          \<and> update R s4 (primaryId (objectId ev) results)
               [(DEDUPLICATION_STATUS_PROPERTY, ''primary'')] = (Inr (), s5) \<longrightarrow>
          main R s0 ev =
            (None,
             \<lparr>remote_state = s5,
              trace =
                [(GetById (objectId ev) ALL_PROPERTIES, None),
                 (DoSearch (search_request_of (build_filterGroups props)), None),
                 (Update (objectId ev) [(DEDUPLICATION_STATUS_PROPERTY, ''merged'')], None),
                 (MergeReq (primaryId (objectId ev) results) (objectId ev), None),
                 (Update (primaryId (objectId ev) results)
                    [(DEDUPLICATION_STATUS_PROPERTY, ''primary'')], None)],
              console_error = [],
              callbacks =
                [[(''result'', VStr ''Successfully merged into primary company''),
                  (''primaryCompanyId'', VId (primaryId (objectId ev) results)),
                  (''mergedCompanyId'', VId (objectId ev))]]\<rparr>))"
proof -
  let ?cur = "objectId ev"
  let ?p = "primaryId ?cur results"
  let ?w2 = "\<lparr>remote_state = s2,
              trace = [(GetById ?cur ALL_PROPERTIES, None),
                       (DoSearch (search_request_of (build_filterGroups props)), None)],
              console_error = [], callbacks = []\<rparr>"
  have m: "main R s0 ev = merge_into_primary R ?w2 ?cur ?p"
    using main_reaches_search [OF assms(1-4)] after_search_branch_B [OF assms(7)] by simp
  have mem: "?p \<in> set (uniqueIds ?cur results)"
    using primaryId_least(1) [OF assms(5,6)] assms(7) by simp
  have le: "id_value ?p \<le> id_value ?cur"
    using primaryId_least(2) [OF assms(5,6)] by simp
  have np: "Number ?p = Some (id_value ?p)"
    using mem numeric_uniqueIds [OF assms(6), of ?cur] by (auto intro: numeric_id_Number)
  have nc: "Number ?cur = Some (id_value ?cur)"
    using assms(5) by (rule numeric_id_Number)
  have "Number ?p \<noteq> Number ?cur"
    using mem uniqueIds_away [OF assms(5), of results] by blast
  with np nc le have a: "\<exists>n m. Number ?p = Some n \<and> Number ?cur = Some m \<and> n < m"
    by auto
  have b: "map fst (trace (snd (main R s0 ev))) \<in>
           {[GetById ?cur ALL_PROPERTIES,
             DoSearch (search_request_of (build_filterGroups props)),
             Update ?cur [(DEDUPLICATION_STATUS_PROPERTY, ''merged'')]],
            [GetById ?cur ALL_PROPERTIES,
             DoSearch (search_request_of (build_filterGroups props)),
             Update ?cur [(DEDUPLICATION_STATUS_PROPERTY, ''merged'')],
             MergeReq ?p ?cur],
            [GetById ?cur ALL_PROPERTIES,
             DoSearch (search_request_of (build_filterGroups props)),
             Update ?cur [(DEDUPLICATION_STATUS_PROPERTY, ''merged'')],
             MergeReq ?p ?cur,
             Update ?p [(DEDUPLICATION_STATUS_PROPERTY, ''primary'')]]}"
    unfolding m using merge_into_primary_calls [of R ?w2 ?cur ?p] by simp
  have c: "main R s0 ev =
            (None,
             \<lparr>remote_state = s5,
              trace =
                [(GetById ?cur ALL_PROPERTIES, None),
                 (DoSearch (search_request_of (build_filterGroups props)), None),
                 (Update ?cur [(DEDUPLICATION_STATUS_PROPERTY, ''merged'')], None),
                 (MergeReq ?p ?cur, None),
                 (Update ?p [(DEDUPLICATION_STATUS_PROPERTY, ''primary'')], None)],
              console_error = [],
              callbacks =
                [[(''result'', VStr ''Successfully merged into primary company''),
                  (''primaryCompanyId'', VId ?p),
                  (''mergedCompanyId'', VId ?cur)]]\<rparr>)"
    if "update R s2 ?cur [(DEDUPLICATION_STATUS_PROPERTY, ''merged'')] = (Inr (), s3)"
      and "apiRequest R s3 ?p ?cur = (Inr (), s4)"
      and "update R s4 ?p [(DEDUPLICATION_STATUS_PROPERTY, ''primary'')] = (Inr (), s5)"
    unfolding m using merge_into_primary_success [of R ?w2 ?cur s3 ?p s4 s5] that by simp
  from a b c show ?thesis by blast
qed

lemma numeric_hits:
  "\<forall>h\<in>set [\<lparr>obj_id = IdStr ''100''\<rparr>, \<lparr>obj_id = IdStr ''200''\<rparr>]. numeric_id (obj_id h)"
  "\<forall>h\<in>set [\<lparr>obj_id = IdStr ''10''\<rparr>, \<lparr>obj_id = IdStr ''20''\<rparr>, \<lparr>obj_id = IdStr ''30''\<rparr>].
     numeric_id (obj_id h)"
  "\<forall>h\<in>set [\<lparr>obj_id = IdStr ''40''\<rparr>, \<lparr>obj_id = IdStr ''30''\<rparr>, \<lparr>obj_id = IdStr ''10''\<rparr>,
             \<lparr>obj_id = IdStr ''20''\<rparr>]. numeric_id (obj_id h)"
  by (simp_all add: numeric_id_def is_digit_def dec_value_def)

lemma acme_facts:
  "acme DEDUPLICATION_STATUS_PROPERTY \<noteq> Some ''merged''" "truthy (acme DEDUPE_PROPERTY)"
  by (simp_all add: acme_def truthy_def DEDUPE_PROPERTY_def DEDUPLICATION_STATUS_PROPERTY_def)

theorem merge_into_primary_sequence_witness:
  "primaryId (IdNum 200) [\<lparr>obj_id = IdStr ''100''\<rparr>, \<lparr>obj_id = IdStr ''200''\<rparr>] = IdStr ''100''
   \<and> main (scripted_remote (Inr acme) (Inr [\<lparr>obj_id = IdStr ''100''\<rparr>, \<lparr>obj_id = IdStr ''200''\<rparr>]) None)
        0 \<lparr>objectId = IdNum 200\<rparr> =
     (None,
      \<lparr>remote_state = 3,
       trace = [(GetById (IdNum 200) ALL_PROPERTIES, None),
                (DoSearch (search_request_of (build_filterGroups acme)), None),
                (Update (IdNum 200) [(DEDUPLICATION_STATUS_PROPERTY, ''merged'')], None),
                (MergeReq (IdStr ''100'') (IdNum 200), None),
                (Update (IdStr ''100'') [(DEDUPLICATION_STATUS_PROPERTY, ''primary'')], None)],
       console_error = [],
       callbacks = [[(''result'', VStr ''Successfully merged into primary company''),
                     (''primaryCompanyId'', VId (IdStr ''100'')),
                     (''mergedCompanyId'', VId (IdNum 200))]]\<rparr>)"
proof -
  let ?R = "scripted_remote (Inr acme) (Inr [\<lparr>obj_id = IdStr ''100''\<rparr>, \<lparr>obj_id = IdStr ''200''\<rparr>]) None"
  let ?ev = "\<lparr>objectId = IdNum 200\<rparr>"
  let ?results = "[\<lparr>obj_id = IdStr ''100''\<rparr>, \<lparr>obj_id = IdStr ''200''\<rparr>]"
  have p: "primaryId (IdNum 200) ?results = IdStr ''100''"
    by (simp add: id_defs)
  have a: "getById ?R 0 (objectId ?ev) ALL_PROPERTIES = (Inr acme, 0)"
    by (simp add: scripted_remote_def)
  have d: "doSearch ?R 0 (search_request_of (build_filterGroups acme)) = (Inr ?results, 0)"
    by (simp add: scripted_remote_def)
  have e: "numeric_id (objectId ?ev)"
    by (simp add: numeric_id_def)
  have f: "\<forall>h\<in>set ?results. numeric_id (obj_id h)"
    by (rule numeric_hits)
  have g: "primaryId (objectId ?ev) ?results \<noteq> objectId ?ev"
    by (simp add: p)
  have u: "update ?R 0 (objectId ?ev) [(DEDUPLICATION_STATUS_PROPERTY, ''merged'')] = (Inr (), 1)"
    "apiRequest ?R 1 (primaryId (objectId ?ev) ?results) (objectId ?ev) = (Inr (), 2)"
    "update ?R 2 (primaryId (objectId ?ev) ?results)
       [(DEDUPLICATION_STATUS_PROPERTY, ''primary'')] = (Inr (), 3)"
    by (simp_all add: scripted_remote_def)
  note inst = merge_into_primary_sequence
    [OF a acme_facts d e f g, where ?s3.0 = 1 and ?s4.0 = 2 and ?s5.0 = 3,
      THEN conjunct2, THEN conjunct2, rule_format, OF conjI [OF u(1) conjI [OF u(2) u(3)]]]
  show ?thesis
    using p inst by simp
qed

lemma merge_into_current_first:
  "\<exists>r rest. trace (snd (merge_into_current R w cur results)) =
     trace w @ (Update (duplicateToMerge cur results)
                  [(DEDUPLICATION_STATUS_PROPERTY, ''merged'')], r) # rest"
  by (auto simp: merge_into_current_def chain_defs split: prod.splits sum.splits)

lemma duplicateToMerge_member:
  "uniqueIds cur results \<noteq> [] \<Longrightarrow> duplicateToMerge cur results \<in> set (uniqueIds cur results)"
  by (simp add: duplicateToMerge_def)

lemma duplicateToMerge_first:
  assumes "numeric_id cur"
  shows "duplicateToMerge cur results =
           hd (filter (\<lambda>i. Number i \<noteq> Number cur) (map obj_id results))"
  using numeric_id_Number [OF assms]
  by (simp add: duplicateToMerge_def uniqueIds_def hd_js_unique matchingIds_def num_neq_Some)

lemma hd_sorted_least:
  assumes "sorted (map f xs)" and "x \<in> set xs"
  shows "f (hd xs) \<le> f x"
  using assms by (cases xs) auto

lemma duplicateToMerge_least_if_sorted:
  assumes "sorted (map id_value (map obj_id results))"
  shows "\<forall>i\<in>set (uniqueIds cur results).
           id_value (duplicateToMerge cur results) \<le> id_value i"
proof
  fix i assume "i \<in> set (uniqueIds cur results)"
  then have i: "i \<in> set (matchingIds cur results)"
    by (simp add: uniqueIds_def set_js_unique)
  have "sorted (map id_value (matchingIds cur results))"
    unfolding matchingIds_def using assms by (rule sorted_filter)
  then have "id_value (hd (matchingIds cur results)) \<le> id_value i"
    using i by (rule hd_sorted_least)
  then show "id_value (duplicateToMerge cur results) \<le> id_value i"
    by (simp add: duplicateToMerge_def uniqueIds_def hd_js_unique)
qed

text \<open>
  C6. When the current record is canonical and has \<open>n \<ge> 1\<close> duplicates (the candidate set,
  which holds no identifier twice), one of them is chosen; the calls after the search are a
  prefix of: mark it merged, merge it into the current record, mark the current record
  primary; no call mutates any other duplicate; and when the three calls succeed the outcome
  reports \<open>remainingDuplicates = n - 1\<close>.
\<close>

theorem absorbs_exactly_one_duplicate:
  assumes "getById R s0 (objectId ev) ALL_PROPERTIES = (Inr props, s1)"
    and "props DEDUPLICATION_STATUS_PROPERTY \<noteq> Some ''merged''"
    and "truthy (props DEDUPE_PROPERTY)"
    and "doSearch R s1 (search_request_of (build_filterGroups props)) = (Inr results, s2)"
    and "numeric_id (objectId ev)" and "\<forall>h\<in>set results. numeric_id (obj_id h)"
    and "uniqueIds (objectId ev) results \<noteq> []"
    and "primaryId (objectId ev) results = objectId ev"
  shows "duplicateToMerge (objectId ev) results \<in> set (uniqueIds (objectId ev) results)
       \<and> card (set (uniqueIds (objectId ev) results)) = length (uniqueIds (objectId ev) results)
       \<and> map fst (trace (snd (main R s0 ev))) \<in>
           {[GetById (objectId ev) ALL_PROPERTIES,
             DoSearch (search_request_of (build_filterGroups props)),
             Update (duplicateToMerge (objectId ev) results)
               [(DEDUPLICATION_STATUS_PROPERTY, ''merged'')]],
            [GetById (objectId ev) ALL_PROPERTIES,
             DoSearch (search_request_of (build_filterGroups props)),
             Update (duplicateToMerge (objectId ev) results)
               [(DEDUPLICATION_STATUS_PROPERTY, ''merged'')],
             MergeReq (objectId ev) (duplicateToMerge (objectId ev) results)],
            [GetById (objectId ev) ALL_PROPERTIES,
             DoSearch (search_request_of (build_filterGroups props)),
             Update (duplicateToMerge (objectId ev) results)
               [(DEDUPLICATION_STATUS_PROPERTY, ''merged'')],
             MergeReq (objectId ev) (duplicateToMerge (objectId ev) results),
             Update (objectId ev) [(DEDUPLICATION_STATUS_PROPERTY, ''primary'')]]}
       \<and> (\<forall>x\<in>set (uniqueIds (objectId ev) results).
            x \<noteq> duplicateToMerge (objectId ev) results \<longrightarrow>
            (\<forall>c\<in>set (trace (snd (main R s0 ev))). x \<notin> mutated_ids (fst c)))
       \<and> (update R s2 (duplicateToMerge (objectId ev) results)
             [(DEDUPLICATION_STATUS_PROPERTY, ''merged'')] = (Inr (), s3)
          \<and> apiRequest R s3 (objectId ev) (duplicateToMerge (objectId ev) results) = (Inr (), s4)
          \<and> update R s4 (objectId ev) [(DEDUPLICATION_STATUS_PROPERTY, ''primary'')] = (Inr (), s5)
          \<longrightarrow>
          main R s0 ev =
            (None,
             \<lparr>remote_state = s5,
              trace =
                [(GetById (objectId ev) ALL_PROPERTIES, None),
                 (DoSearch (search_request_of (build_filterGroups props)), None),
                 (Update (duplicateToMerge (objectId ev) results)
                    [(DEDUPLICATION_STATUS_PROPERTY, ''merged'')], None),
                 (MergeReq (objectId ev) (duplicateToMerge (objectId ev) results), None),
                 (Update (objectId ev) [(DEDUPLICATION_STATUS_PROPERTY, ''primary'')], None)],
              console_error = [],
              callbacks =
                [[(''result'', VStr ''Successfully merged duplicate into this company''),
                  (''primaryCompanyId'', VId (objectId ev)),
                  (''mergedCompanyId'', VId (duplicateToMerge (objectId ev) results)),
                  (''remainingDuplicates'',
                     VNum (int (length (uniqueIds (objectId ev) results)) - 1))]]\<rparr>))"
proof -
  let ?cur = "objectId ev"
  let ?d = "duplicateToMerge ?cur results"
  let ?req = "search_request_of (build_filterGroups props)"
  let ?w2 = "\<lparr>remote_state = s2,
              trace = [(GetById ?cur ALL_PROPERTIES, None), (DoSearch ?req, None)],
              console_error = [], callbacks = []\<rparr>"
  let ?A = "Update ?d [(DEDUPLICATION_STATUS_PROPERTY, ''merged'')]"
  let ?B = "MergeReq ?cur ?d"
  let ?C = "Update ?cur [(DEDUPLICATION_STATUS_PROPERTY, ''primary'')]"
  have m: "main R s0 ev = merge_into_current R ?w2 ?cur results"
    using main_reaches_search [OF assms(1-4)] after_search_branch_A [OF assms(7,8)] by simp
  have a: "?d \<in> set (uniqueIds ?cur results)"
    using assms(7) by (rule duplicateToMerge_member)
  have b: "card (set (uniqueIds ?cur results)) = length (uniqueIds ?cur results)"
    using distinct_uniqueIds by (rule distinct_card)
  have c: "map fst (trace (snd (main R s0 ev))) \<in>
             {[GetById ?cur ALL_PROPERTIES, DoSearch ?req, ?A],
              [GetById ?cur ALL_PROPERTIES, DoSearch ?req, ?A, ?B],
              [GetById ?cur ALL_PROPERTIES, DoSearch ?req, ?A, ?B, ?C]}"
    unfolding m using merge_into_current_calls [of R ?w2 ?cur results] by simp
  have d: "\<forall>c\<in>set (trace (snd (main R s0 ev))). x \<notin> mutated_ids (fst c)"
    if x: "x \<in> set (uniqueIds ?cur results)" and nd: "x \<noteq> ?d" for x
  proof
    fix c assume "c \<in> set (trace (snd (main R s0 ev)))"
    then have "fst c \<in> set (map fst (trace (snd (main R s0 ev))))"
      by simp
    with c have "fst c \<in> {GetById ?cur ALL_PROPERTIES, DoSearch ?req, ?A, ?B, ?C}"
      by auto
    then have "mutated_ids (fst c) \<subseteq> {?cur, ?d}"
      by (auto simp: mutated_ids_def)
    moreover have "x \<noteq> ?cur"
      using x uniqueIds_away [OF assms(5), of results] by blast
    ultimately show "x \<notin> mutated_ids (fst c)"
      using nd by blast
  qed
  have e: "main R s0 ev =
            (None,
             \<lparr>remote_state = s5,
              trace = [(GetById ?cur ALL_PROPERTIES, None), (DoSearch ?req, None),
                       (?A, None), (?B, None), (?C, None)],
              console_error = [],
              callbacks =
                [[(''result'', VStr ''Successfully merged duplicate into this company''),
                  (''primaryCompanyId'', VId ?cur),
                  (''mergedCompanyId'', VId ?d),
                  (''remainingDuplicates'', VNum (int (length (uniqueIds ?cur results)) - 1))]]\<rparr>)"
    if "update R s2 ?d [(DEDUPLICATION_STATUS_PROPERTY, ''merged'')] = (Inr (), s3)"
      and "apiRequest R s3 ?cur ?d = (Inr (), s4)"
      and "update R s4 ?cur [(DEDUPLICATION_STATUS_PROPERTY, ''primary'')] = (Inr (), s5)"
    unfolding m using merge_into_current_success [of R ?w2 ?cur results s3 s4 s5] that by simp
  from a b c d e show ?thesis by blast
qed

theorem absorbs_exactly_one_duplicate_witness:
  "length (uniqueIds (IdNum 10)
       [\<lparr>obj_id = IdStr ''40''\<rparr>, \<lparr>obj_id = IdStr ''30''\<rparr>, \<lparr>obj_id = IdStr ''10''\<rparr>,
        \<lparr>obj_id = IdStr ''20''\<rparr>]) = 3
   \<and> main (scripted_remote (Inr acme)
        (Inr [\<lparr>obj_id = IdStr ''40''\<rparr>, \<lparr>obj_id = IdStr ''30''\<rparr>, \<lparr>obj_id = IdStr ''10''\<rparr>,
              \<lparr>obj_id = IdStr ''20''\<rparr>]) None) 0 \<lparr>objectId = IdNum 10\<rparr> =
     (None,
      \<lparr>remote_state = 3,
       trace = [(GetById (IdNum 10) ALL_PROPERTIES, None),
                (DoSearch (search_request_of (build_filterGroups acme)), None),
                (Update (IdStr ''40'') [(DEDUPLICATION_STATUS_PROPERTY, ''merged'')], None),
                (MergeReq (IdNum 10) (IdStr ''40''), None),
                (Update (IdNum 10) [(DEDUPLICATION_STATUS_PROPERTY, ''primary'')], None)],
       console_error = [],
       callbacks = [[(''result'', VStr ''Successfully merged duplicate into this company''),
                     (''primaryCompanyId'', VId (IdNum 10)),
                     (''mergedCompanyId'', VId (IdStr ''40'')),
                     (''remainingDuplicates'', VNum 2)]]\<rparr>)"
proof -
  let ?results = "[\<lparr>obj_id = IdStr ''40''\<rparr>, \<lparr>obj_id = IdStr ''30''\<rparr>, \<lparr>obj_id = IdStr ''10''\<rparr>,
                   \<lparr>obj_id = IdStr ''20''\<rparr>]"
  let ?R = "scripted_remote (Inr acme) (Inr ?results) None"
  let ?ev = "\<lparr>objectId = IdNum 10\<rparr>"
  have q: "uniqueIds (IdNum 10) ?results = [IdStr ''40'', IdStr ''30'', IdStr ''20'']"
    by (simp add: id_defs)
  have p: "primaryId (IdNum 10) ?results = IdNum 10"
    by (simp add: id_defs)
  have dm: "duplicateToMerge (IdNum 10) ?results = IdStr ''40''"
    by (simp add: duplicateToMerge_def q)
  have a: "getById ?R 0 (objectId ?ev) ALL_PROPERTIES = (Inr acme, 0)"
    by (simp add: scripted_remote_def)
  have d: "doSearch ?R 0 (search_request_of (build_filterGroups acme)) = (Inr ?results, 0)"
    by (simp add: scripted_remote_def)
  have e: "numeric_id (objectId ?ev)"
    by (simp add: numeric_id_def)
  have f: "\<forall>h\<in>set ?results. numeric_id (obj_id h)"
    by (rule numeric_hits)
  have g: "uniqueIds (objectId ?ev) ?results \<noteq> []"
    by (simp add: q)
  have h: "primaryId (objectId ?ev) ?results = objectId ?ev"
    by (simp add: p)
  have u: "update ?R 0 (duplicateToMerge (objectId ?ev) ?results)
             [(DEDUPLICATION_STATUS_PROPERTY, ''merged'')] = (Inr (), 1)"
    "apiRequest ?R 1 (objectId ?ev) (duplicateToMerge (objectId ?ev) ?results) = (Inr (), 2)"
    "update ?R 2 (objectId ?ev) [(DEDUPLICATION_STATUS_PROPERTY, ''primary'')] = (Inr (), 3)"
    by (simp_all add: scripted_remote_def)
  note inst = absorbs_exactly_one_duplicate
    [OF a acme_facts d e f g h, where ?s3.0 = 1 and ?s4.0 = 2 and ?s5.0 = 3,
      THEN conjunct2, THEN conjunct2, THEN conjunct2, THEN conjunct2, rule_format,
      OF conjI [OF u(1) conjI [OF u(2) u(3)]]]
  show ?thesis
    using q dm inst by simp
qed

text \<open>
  C2, as amended. When the current record is canonical and has duplicates, the duplicate
  merged in this invocation is the first identifier of the search results that does not
  coerce to the current record's number: the first mutation marks it merged, and every merge
  request merges it into the current record. It is the numerically least duplicate when the
  search returned its results in ascending numeric order (\<open>id_value\<close> is the number of a
  numeric identifier).
\<close>

theorem merges_first_returned_duplicate:
  assumes "getById R s0 (objectId ev) ALL_PROPERTIES = (Inr props, s1)"
    and "props DEDUPLICATION_STATUS_PROPERTY \<noteq> Some ''merged''"
    and "truthy (props DEDUPE_PROPERTY)"
    and "doSearch R s1 (search_request_of (build_filterGroups props)) = (Inr results, s2)"
    and "numeric_id (objectId ev)" and "\<forall>h\<in>set results. numeric_id (obj_id h)"
    and "uniqueIds (objectId ev) results \<noteq> []"
    and "primaryId (objectId ev) results = objectId ev"
  shows "duplicateToMerge (objectId ev) results =
           hd (filter (\<lambda>i. Number i \<noteq> Number (objectId ev)) (map obj_id results))
       \<and> (\<exists>r rest. trace (snd (main R s0 ev)) =
            (GetById (objectId ev) ALL_PROPERTIES, None)
            # (DoSearch (search_request_of (build_filterGroups props)), None)
            # (Update (duplicateToMerge (objectId ev) results)
                 [(DEDUPLICATION_STATUS_PROPERTY, ''merged'')], r)
            # rest)
       \<and> (\<forall>c\<in>set (trace (snd (main R s0 ev))). \<forall>p m.
            fst c = MergeReq p m \<longrightarrow>
            p = objectId ev \<and> m = duplicateToMerge (objectId ev) results)
       \<and> (sorted (map id_value (map obj_id results)) \<longrightarrow>
            (\<forall>i\<in>set (uniqueIds (objectId ev) results).
               id_value (duplicateToMerge (objectId ev) results) \<le> id_value i))"
proof -
  let ?cur = "objectId ev"
  let ?d = "duplicateToMerge ?cur results"
  let ?req = "search_request_of (build_filterGroups props)"
  let ?w2 = "\<lparr>remote_state = s2,
              trace = [(GetById ?cur ALL_PROPERTIES, None), (DoSearch ?req, None)],
              console_error = [], callbacks = []\<rparr>"
  have m: "main R s0 ev = merge_into_current R ?w2 ?cur results"
    using main_reaches_search [OF assms(1-4)] after_search_branch_A [OF assms(7,8)] by simp
  have a: "?d = hd (filter (\<lambda>i. Number i \<noteq> Number ?cur) (map obj_id results))"
    using assms(5) by (rule duplicateToMerge_first)
  have b: "\<exists>r rest. trace (snd (main R s0 ev)) =
            (GetById ?cur ALL_PROPERTIES, None) # (DoSearch ?req, None)
            # (Update ?d [(DEDUPLICATION_STATUS_PROPERTY, ''merged'')], r) # rest"
    unfolding m using merge_into_current_first [of R ?w2 ?cur results] by simp
  have c: "\<forall>c\<in>set (trace (snd (main R s0 ev))). \<forall>p m.
            fst c = MergeReq p m \<longrightarrow> p = ?cur \<and> m = ?d"
  proof (intro ballI allI impI)
    fix c p m
    assume "c \<in> set (trace (snd (main R s0 ev)))" and mr: "fst c = MergeReq p m"
    then have "MergeReq p m \<in> set (map fst (trace (snd (main R s0 ev))))"
      by force
    then show "p = ?cur \<and> m = ?d"
      unfolding m using merge_into_current_calls [of R ?w2 ?cur results] by auto
  qed
  have d: "\<forall>i\<in>set (uniqueIds ?cur results). id_value ?d \<le> id_value i"
    if "sorted (map id_value (map obj_id results))"
    using that by (rule duplicateToMerge_least_if_sorted)
  from a b c d show ?thesis by blast
qed

theorem merges_first_returned_duplicate_witness:
  "duplicateToMerge (IdNum 10)
       [\<lparr>obj_id = IdStr ''10''\<rparr>, \<lparr>obj_id = IdStr ''20''\<rparr>, \<lparr>obj_id = IdStr ''30''\<rparr>] = IdStr ''20''
   \<and> hd (filter (\<lambda>i. Number i \<noteq> Number (IdNum 10))
          (map obj_id [\<lparr>obj_id = IdStr ''10''\<rparr>, \<lparr>obj_id = IdStr ''20''\<rparr>, \<lparr>obj_id = IdStr ''30''\<rparr>]))
       = IdStr ''20''
   \<and> sorted (map id_value
         (map obj_id [\<lparr>obj_id = IdStr ''10''\<rparr>, \<lparr>obj_id = IdStr ''20''\<rparr>, \<lparr>obj_id = IdStr ''30''\<rparr>]))
   \<and> id_value (duplicateToMerge (IdNum 10)
         [\<lparr>obj_id = IdStr ''10''\<rparr>, \<lparr>obj_id = IdStr ''20''\<rparr>, \<lparr>obj_id = IdStr ''30''\<rparr>])
       \<le> id_value (IdStr ''30'')"
proof -
  let ?results = "[\<lparr>obj_id = IdStr ''10''\<rparr>, \<lparr>obj_id = IdStr ''20''\<rparr>, \<lparr>obj_id = IdStr ''30''\<rparr>]"
  let ?R = "scripted_remote (Inr acme) (Inr ?results) None"
  let ?ev = "\<lparr>objectId = IdNum 10\<rparr>"
  have q: "uniqueIds (IdNum 10) ?results = [IdStr ''20'', IdStr ''30'']"
    by (simp add: id_defs)
  have p: "primaryId (IdNum 10) ?results = IdNum 10"
    by (simp add: id_defs)
  have dm: "duplicateToMerge (IdNum 10) ?results = IdStr ''20''"
    by (simp add: duplicateToMerge_def q)
  have a: "getById ?R 0 (objectId ?ev) ALL_PROPERTIES = (Inr acme, 0)"
    by (simp add: scripted_remote_def)
  have d: "doSearch ?R 0 (search_request_of (build_filterGroups acme)) = (Inr ?results, 0)"
    by (simp add: scripted_remote_def)
  have e: "numeric_id (objectId ?ev)"
    by (simp add: numeric_id_def)
  have f: "\<forall>h\<in>set ?results. numeric_id (obj_id h)"
    by (rule numeric_hits)
  have g: "uniqueIds (objectId ?ev) ?results \<noteq> []"
    by (simp add: q)
  have h: "primaryId (objectId ?ev) ?results = objectId ?ev"
    by (simp add: p)
  have srt: "sorted (map id_value (map obj_id ?results))"
    by (simp add: id_value_def is_digit_def dec_value_def)
  note inst = merges_first_returned_duplicate [OF a acme_facts d e f g h]
  note first = inst [THEN conjunct1]
  note least_all = inst [THEN conjunct2, THEN conjunct2, THEN conjunct2, rule_format, OF srt]
  have least: "id_value (duplicateToMerge (IdNum 10) ?results) \<le> id_value (IdStr ''30'')"
    using least_all [of "IdStr ''30''"] q by simp
  show ?thesis
    using dm srt least first by simp
qed

text \<open>
  C2 as stated fails: when the search returns 30 before 20, the duplicate merged into
  record 10 is 30, not the numerically least duplicate 20.
\<close>

theorem unsorted_search_merges_larger_duplicate:
  "main (scripted_remote (Inr acme)
           (Inr [\<lparr>obj_id = IdStr ''30''\<rparr>, \<lparr>obj_id = IdStr ''20''\<rparr>, \<lparr>obj_id = IdStr ''10''\<rparr>]) None)
        0 \<lparr>objectId = IdNum 10\<rparr> =
     (None,
      \<lparr>remote_state = 3,
       trace = [(GetById (IdNum 10) ALL_PROPERTIES, None),
                (DoSearch (search_request_of (build_filterGroups acme)), None),
                (Update (IdStr ''30'') [(''deduplication_status'', ''merged'')], None),
                (MergeReq (IdNum 10) (IdStr ''30''), None),
                (Update (IdNum 10) [(''deduplication_status'', ''primary'')], None)],
       console_error = [],
       callbacks = [[(''result'', VStr ''Successfully merged duplicate into this company''),
                     (''primaryCompanyId'', VId (IdNum 10)),
                     (''mergedCompanyId'', VId (IdStr ''30'')),
                     (''remainingDuplicates'', VNum 1)]]\<rparr>)
   \<and> uniqueIds (IdNum 10)
        [\<lparr>obj_id = IdStr ''30''\<rparr>, \<lparr>obj_id = IdStr ''20''\<rparr>, \<lparr>obj_id = IdStr ''10''\<rparr>]
       = [IdStr ''30'', IdStr ''20'']
   \<and> Number (IdStr ''20'') = Some 20 \<and> Number (IdStr ''30'') = Some 30"
  by (simp add: run_unsorted_search) (simp add: id_defs)

end
